theory Spec2Isabelle
  imports Complex_Main "HOL-Library.Word" "HOL-Library.Sublist" "HOL-Library.Log_Nat"
begin

section \<open>JavaScript strings\<close>

text \<open>
  A JavaScript string is a sequence of UTF-16 code units: \<open>length\<close>, \<open>startsWith\<close>,
  \<open>includes\<close> and \<open>===\<close> all work on code units. The literals of the source are ASCII,
  so \<open>lit\<close> turns an Isabelle string literal into the code units of the same text.
  A string is truthy when it is not empty.
\<close>

type_synonym jsstring = "16 word list"

definition lit :: "string \<Rightarrow> jsstring" where
  "lit s = map of_char s"

definition dquote :: jsstring where
  "dquote = [0x22]"

definition newline :: jsstring where
  "newline = [0x0A]"

definition startsWith :: "jsstring \<Rightarrow> jsstring \<Rightarrow> bool" where
  "startsWith s t = (take (length t) s = t)"

fun str_includes :: "jsstring \<Rightarrow> jsstring \<Rightarrow> bool" where
  "str_includes [] t = (t = [])"
| "str_includes (c # s) t = (startsWith (c # s) t \<or> str_includes s t)"

definition asciiLower :: "16 word \<Rightarrow> 16 word" where
  "asciiLower c = (if 0x41 \<le> c \<and> c \<le> 0x5A then c + 0x20 else c)"

text \<open>
  \<open>String.prototype.toLowerCase\<close> follows the Unicode case mapping. On a string of ASCII
  code units that mapping is \<open>asciiLower\<close> on each unit; on any other string the result is
  taken from the parameter \<open>u\<close>, which stands for the engine's Unicode mapping.
\<close>

definition toLowerCase :: "(jsstring \<Rightarrow> jsstring) \<Rightarrow> jsstring \<Rightarrow> jsstring" where
  "toLowerCase u s = (if list_all (\<lambda>c. c < 0x80) s then map asciiLower s else u s)"

section \<open>JavaScript numbers\<close>

text \<open>
  A JavaScript number is an IEEE 754 double. A finite double is a rational number
  \<open>m * 2 ^ k\<close> with \<open>\<bar>m\<bar> < 2 ^ 53\<close>, and the model holds a number as that rational. An
  arithmetic operation computes the exact result and rounds it to the nearest double, a
  tie going to the even significand: \<open>toDouble\<close>. The exponent is not bounded in the model;
  nothing the scorer computes comes near the overflow or the subnormal range.

  \<open>binaryExponent x\<close> is the \<open>e\<close> with \<open>2 ^ e \<le> x < 2 ^ (e + 1)\<close> for a positive \<open>x\<close>, found from
  the bit lengths of numerator and denominator.
\<close>

definition binaryExponent :: "rat \<Rightarrow> int" where
  "binaryExponent x =
     (let d = int (floorlog 2 (nat (fst (quotient_of x))))
              - int (floorlog 2 (nat (snd (quotient_of x))))
      in if 2 powi d \<le> x then d else d - 1)"

definition roundHalfEven :: "rat \<Rightarrow> int" where
  "roundHalfEven q =
     (if q - of_int \<lfloor>q\<rfloor> < 1 / 2 then \<lfloor>q\<rfloor>
      else if 1 / 2 < q - of_int \<lfloor>q\<rfloor> then \<lfloor>q\<rfloor> + 1
      else if even \<lfloor>q\<rfloor> then \<lfloor>q\<rfloor> else \<lfloor>q\<rfloor> + 1)"

text \<open>A positive number rounded to 53 significant bits.\<close>

definition roundPositive :: "rat \<Rightarrow> rat" where
  "roundPositive x =
     of_int (roundHalfEven (x / 2 powi (binaryExponent x - 52))) * 2 powi (binaryExponent x - 52)"

definition toDouble :: "rat \<Rightarrow> rat" where
  "toDouble x = (if x = 0 then 0 else if 0 < x then roundPositive x else - roundPositive (- x))"

text \<open>\<open>a + b\<close>, \<open>a * b\<close> and \<open>a / b\<close> on numbers.\<close>

definition fadd :: "rat \<Rightarrow> rat \<Rightarrow> rat" where
  "fadd a b = toDouble (a + b)"

definition fmul :: "rat \<Rightarrow> rat \<Rightarrow> rat" where
  "fmul a b = toDouble (a * b)"

definition fdiv :: "rat \<Rightarrow> rat \<Rightarrow> rat" where
  "fdiv a b = toDouble (a / b)"

text \<open>
  \<open>Math.round\<close> gives the nearest integer of the number's exact value, a half going up.
\<close>

definition Math_round :: "rat \<Rightarrow> int" where
  "Math_round x = \<lfloor>x + 1 / 2\<rfloor>"

section \<open>Data model (types/vopl.ts)\<close>

datatype VOPLNodeType = Trigger | Process | Integration | Output

record PortDefinition =
  port_name :: jsstring
  port_description :: jsstring
  shape :: jsstring

record Example =
  ex_input :: jsstring
  ex_output :: jsstring
  ex_notes :: jsstring

record VOPLNodeData =
  name :: jsstring
  intent :: jsstring
  inputs :: "PortDefinition list"
  outputs :: "PortDefinition list"
  behavior :: jsstring
  examples :: "Example list"
  constraints :: "jsstring list"

record VOPLNode =
  node_id :: jsstring
  node_type :: VOPLNodeType
  position :: "rat \<times> rat"
  data :: VOPLNodeData

record VOPLEdge =
  edge_id :: jsstring
  source :: jsstring
  target :: jsstring
  sourceHandle :: "jsstring option"
  targetHandle :: "jsstring option"
  label :: "jsstring option"
  dataShape :: "jsstring option"

record SystemContext =
  environment :: jsstring
  sc_constraints :: jsstring
  infrastructure :: jsstring
  dependencies :: jsstring
  security :: jsstring
  nonFunctional :: jsstring

datatype Severity = Error | Warning | Info

datatype Dimension = Completeness | Ambiguity | Consistency | Groundedness

record SpecIssue =
  severity :: Severity
  dimension :: Dimension
  nodeId :: "jsstring option"
  edgeId :: "jsstring option"
  field :: "jsstring option"
  message :: jsstring

record DimensionScore =
  score :: int
  details :: "jsstring list"

record SpecScore =
  overall :: int
  completeness :: DimensionScore
  ambiguity :: DimensionScore
  consistency :: DimensionScore
  groundedness :: DimensionScore
  issues :: "SpecIssue list"
  suggestions :: "jsstring list"
  lastUpdated :: int

record VOPLProject =
  project_id :: jsstring
  project_name :: jsstring
  systemContext :: SystemContext
  nodes :: "VOPLNode list"
  edges :: "VOPLEdge list"
  specScore :: "SpecScore option"
  lastModified :: int

definition defaultSystemContext :: SystemContext where
  "defaultSystemContext =
     \<lparr>environment = [], sc_constraints = [], infrastructure = [],
      dependencies = [], security = [], nonFunctional = []\<rparr>"

section \<open>The heuristic scorer (getMockScore in api/specAnalysis.ts)\<close>

text \<open>
  The scores are JavaScript numbers, computed with the operations of the section on
  numbers in the order the source writes them. The counts and the sum of the node scores
  are integers far below \<open>2 ^ 53\<close>, which doubles hold exactly. \<open>Date.now()\<close> is the
  parameter \<open>now\<close>.
\<close>

text \<open>\<open>Object.values(project.systemContext)\<close>: the six fields, in declaration order.\<close>

definition contextFields :: "SystemContext \<Rightarrow> jsstring list" where
  "contextFields sc =
     [environment sc, sc_constraints sc, infrastructure sc,
      dependencies sc, security sc, nonFunctional sc]"

definition filledContext :: "SystemContext \<Rightarrow> nat" where
  "filledContext sc = length (filter (\<lambda>v. v \<noteq> [] \<and> length v > 10) (contextFields sc))"

definition contextIssue :: SpecIssue where
  "contextIssue =
     \<lparr>severity = Warning, dimension = Completeness, nodeId = None, edgeId = None,
      field = None,
      message = lit ''System context is incomplete. Fill in environment, infrastructure, and dependencies.''\<rparr>"

definition noNodesIssue :: SpecIssue where
  "noNodesIssue =
     \<lparr>severity = Error, dimension = Completeness, nodeId = None, edgeId = None,
      field = None,
      message = lit ''No nodes defined. Add at least one trigger and one output node.''\<rparr>"

text \<open>The body of the \<open>map\<close> callback: the score of one node.\<close>

definition definedShape :: "PortDefinition \<Rightarrow> bool" where
  "definedShape p = (shape p \<noteq> [] \<and> shape p \<noteq> lit ''unknown'')"

definition nodeScore :: "VOPLNode \<Rightarrow> nat" where
  "nodeScore node =
     (if name (data node) \<noteq> [] \<and> \<not> startsWith (name (data node)) (lit ''New '') then 10 else 0)
   + (if intent (data node) \<noteq> [] \<and> length (intent (data node)) > 20 then 20 else 0)
   + (if behavior (data node) \<noteq> [] \<and> length (behavior (data node)) > 50 then 30 else 0)
   + (if list_ex definedShape (inputs (data node)) then 15 else 0)
   + (if list_ex definedShape (outputs (data node)) then 15 else 0)
   + (if length (examples (data node)) > 0 then 10 else 0)"

text \<open>The issue the callback pushes for a node whose intent is short or a placeholder.\<close>

definition intentIssue :: "VOPLNode \<Rightarrow> SpecIssue" where
  "intentIssue node =
     \<lparr>severity = Warning, dimension = Ambiguity, nodeId = Some (node_id node),
      edgeId = None, field = Some (lit ''intent''),
      message = dquote @ name (data node) @ dquote @ lit '' needs a clearer intent description.''\<rparr>"

definition needsIntent :: "VOPLNode \<Rightarrow> bool" where
  "needsIntent node =
     (length (intent (data node)) < 20 \<or> startsWith (intent (data node)) (lit ''Describe''))"

definition completenessScore :: "VOPLProject \<Rightarrow> rat" where
  "completenessScore project =
     (if length (nodes project) = 0 then 10
      else fadd
        (fadd 0
           (fmul (fdiv (of_nat (filledContext (systemContext project)))
                       (of_nat (length (contextFields (systemContext project))))) 20))
        (fmul (fdiv (of_nat (sum_list (map nodeScore (nodes project))))
                    (of_nat (length (nodes project) * 100))) 80))"

definition unconnectedNodes :: "VOPLProject \<Rightarrow> VOPLNode list" where
  "unconnectedNodes project =
     filter (\<lambda>node.
         \<not> list_ex (\<lambda>e. target e = node_id node) (edges project)
       \<and> \<not> list_ex (\<lambda>e. source e = node_id node) (edges project))
       (nodes project)"

definition unconnectedIssue :: "VOPLNode \<Rightarrow> SpecIssue" where
  "unconnectedIssue node =
     \<lparr>severity = Warning, dimension = Consistency, nodeId = Some (node_id node),
      edgeId = None, field = None,
      message = dquote @ name (data node) @ dquote @ lit '' is not connected to any other node.''\<rparr>"

definition consistencyScore :: "VOPLProject \<Rightarrow> int" where
  "consistencyScore project =
     (if length (edges project) > 0 \<and> length (unconnectedNodes project) > 0
      then 80 - int (length (unconnectedNodes project)) * 10
      else 80)"

definition triggerIssue :: SpecIssue where
  "triggerIssue =
     \<lparr>severity = Info, dimension = Completeness, nodeId = None, edgeId = None,
      field = None,
      message = lit ''Consider adding a Trigger node to define how the flow starts.''\<rparr>"

definition outputIssue :: SpecIssue where
  "outputIssue =
     \<lparr>severity = Info, dimension = Completeness, nodeId = None, edgeId = None,
      field = None,
      message = lit ''Consider adding an Output node to define the flow result.''\<rparr>"

text \<open>The \<open>issues\<close> array, in the order of the pushes.\<close>

definition mockIssues :: "VOPLProject \<Rightarrow> SpecIssue list" where
  "mockIssues project =
     (if filledContext (systemContext project) < 3 then [contextIssue] else [])
   @ (if length (nodes project) = 0 then [noNodesIssue]
      else map intentIssue (filter needsIntent (nodes project)))
   @ (if length (edges project) > 0 then map unconnectedIssue (unconnectedNodes project) else [])
   @ (if \<not> list_ex (\<lambda>n. node_type n = Trigger) (nodes project) \<and> length (nodes project) > 0
      then [triggerIssue] else [])
   @ (if \<not> list_ex (\<lambda>n. node_type n = Output) (nodes project) \<and> length (nodes project) > 0
      then [outputIssue] else [])"

definition mockSuggestions :: "jsstring list" where
  "mockSuggestions =
     take 3
       [lit ''Add detailed behavior descriptions with error handling to each node.'',
        lit ''Define explicit data shapes (types) for all inputs and outputs.'',
        lit ''Include examples for edge cases, not just happy paths.'',
        lit ''Fill in the System Context to provide implementation context.'',
        lit ''Ensure all nodes are connected in the data flow.'']"

text \<open>
  The constant \<open>overall\<close>; the literals \<open>0.35\<close>, \<open>0.25\<close> and \<open>0.15\<close> are the doubles nearest
  to these decimals.
\<close>

definition overallScore :: "rat \<Rightarrow> int \<Rightarrow> int" where
  "overallScore completenessValue consistencyValue =
     Math_round
       (fadd
         (fadd
           (fadd (fmul completenessValue (toDouble (35 / 100)))
                 (fmul 50 (toDouble (25 / 100))))
           (fmul (of_int consistencyValue) (toDouble (25 / 100))))
         (fmul 60 (toDouble (15 / 100))))"

definition getMockScore :: "int \<Rightarrow> VOPLProject \<Rightarrow> SpecScore" where
  "getMockScore now project =
     \<lparr>overall = overallScore (completenessScore project) (consistencyScore project),
      completeness = \<lparr>score = Math_round (completenessScore project), details = []\<rparr>,
      ambiguity = \<lparr>score = 50, details = []\<rparr>,
      consistency = \<lparr>score = consistencyScore project, details = []\<rparr>,
      groundedness = \<lparr>score = 60, details = []\<rparr>,
      issues = mockIssues project,
      suggestions = mockSuggestions,
      lastUpdated = now\<rparr>"

section \<open>Default templates for new nodes (types/vopl.ts)\<close>

definition defaultNodeData :: "VOPLNodeType \<Rightarrow> VOPLNodeData" where
  "defaultNodeData t = (case t of
     Trigger \<Rightarrow>
       \<lparr>name = lit ''New Trigger'',
        intent = lit ''Describe what triggers this flow...'',
        inputs = [],
        outputs = [\<lparr>port_name = lit ''payload'',
                    port_description = lit ''Output data from trigger'',
                    shape = lit ''unknown''\<rparr>],
        behavior = lit ''## Trigger Type'' @ newline
          @ lit ''[HTTP endpoint / Cron schedule / Event listener / Manual trigger]'' @ newline
          @ newline @ lit ''## Details'' @ newline @ lit ''Describe the trigger conditions...'',
        examples = [\<lparr>ex_input = lit ''{}'', ex_output = lit ''{}'',
                     ex_notes = lit ''Example scenario''\<rparr>],
        constraints = []\<rparr>
   | Process \<Rightarrow>
       \<lparr>name = lit ''New Process'',
        intent = lit ''Describe the processing logic...'',
        inputs = [\<lparr>port_name = lit ''input'',
                   port_description = lit ''Input data to process'',
                   shape = lit ''unknown''\<rparr>],
        outputs = [\<lparr>port_name = lit ''result'',
                    port_description = lit ''Processed output'',
                    shape = lit ''unknown''\<rparr>],
        behavior = lit ''## Logic'' @ newline @ lit ''Describe what this process does...''
          @ newline @ newline @ lit ''## Error Handling'' @ newline
          @ lit ''How should errors be handled?'',
        examples = [\<lparr>ex_input = lit ''{}'', ex_output = lit ''{}'',
                     ex_notes = lit ''Example transformation''\<rparr>],
        constraints = []\<rparr>
   | Integration \<Rightarrow>
       \<lparr>name = lit ''New Integration'',
        intent = lit ''Describe the external service interaction...'',
        inputs = [\<lparr>port_name = lit ''request'',
                   port_description = lit ''Data to send to service'',
                   shape = lit ''unknown''\<rparr>],
        outputs = [\<lparr>port_name = lit ''response'',
                    port_description = lit ''Response from service'',
                    shape = lit ''unknown''\<rparr>],
        behavior = lit ''## Service'' @ newline
          @ lit ''[Database / API / Cache / Message Queue / etc.]'' @ newline @ newline
          @ lit ''## Operation'' @ newline @ lit ''Describe the operation (read/write/call)...''
          @ newline @ newline @ lit ''## Configuration'' @ newline
          @ lit ''Connection details shape...'',
        examples = [\<lparr>ex_input = lit ''{}'', ex_output = lit ''{}'',
                     ex_notes = lit ''Example interaction''\<rparr>],
        constraints = []\<rparr>
   | Output \<Rightarrow>
       \<lparr>name = lit ''New Output'',
        intent = lit ''Describe the output/response...'',
        inputs = [\<lparr>port_name = lit ''data'',
                   port_description = lit ''Data to output'',
                   shape = lit ''unknown''\<rparr>],
        outputs = [],
        behavior = lit ''## Output Type'' @ newline
          @ lit ''[HTTP response / File / Notification / etc.]'' @ newline @ newline
          @ lit ''## Format'' @ newline @ lit ''Describe the output format...'',
        examples = [\<lparr>ex_input = lit ''{}'', ex_output = lit ''{}'',
                     ex_notes = lit ''Example output''\<rparr>],
        constraints = []\<rparr>)"

section \<open>The project store (stores/projectStore.ts)\<close>

record ProjectState =
  state_project :: VOPLProject
  selectedNodeId :: "jsstring option"
  isPanelOpen :: bool
  isSystemContextOpen :: bool
  isAnalyzing :: bool

definition createEmptyProject :: "jsstring \<Rightarrow> int \<Rightarrow> VOPLProject" where
  "createEmptyProject uuid now =
     \<lparr>project_id = uuid, project_name = lit ''Untitled Project'',
      systemContext = defaultSystemContext, nodes = [], edges = [],
      specScore = None, lastModified = now\<rparr>"

text \<open>
  The node \<open>addNode\<close> builds; \<open>uuid\<close> is the value of \<open>crypto.randomUUID()\<close>. Every
  default template has a non-empty name and intent, so the \<open>||\<close> fallbacks of the source
  never apply.
\<close>

definition newNode :: "jsstring \<Rightarrow> VOPLNodeType \<Rightarrow> rat \<times> rat \<Rightarrow> VOPLNode" where
  "newNode uuid t pos =
     \<lparr>node_id = uuid, node_type = t, position = pos, data = defaultNodeData t\<rparr>"

definition addNode :: "int \<Rightarrow> jsstring \<Rightarrow> VOPLNodeType \<Rightarrow> rat \<times> rat \<Rightarrow> ProjectState \<Rightarrow> ProjectState" where
  "addNode now uuid t pos state =
     state\<lparr>state_project := (state_project state)
              \<lparr>nodes := nodes (state_project state) @ [newNode uuid t pos],
               lastModified := now\<rparr>,
           selectedNodeId := Some uuid,
           isPanelOpen := True\<rparr>"

text \<open>
  \<open>deleteNode\<close>: zustand's \<open>set\<close> merges the returned fields into the state, so the
  fields it does not name stay as they are.
\<close>

definition deleteNode :: "int \<Rightarrow> jsstring \<Rightarrow> ProjectState \<Rightarrow> ProjectState" where
  "deleteNode now nid state =
     state\<lparr>state_project := (state_project state)
              \<lparr>nodes := filter (\<lambda>node. node_id node \<noteq> nid) (nodes (state_project state)),
               edges := filter (\<lambda>edge. source edge \<noteq> nid \<and> target edge \<noteq> nid)
                          (edges (state_project state)),
               lastModified := now\<rparr>,
           selectedNodeId :=
             (if selectedNodeId state = Some nid then None else selectedNodeId state),
           isPanelOpen :=
             (if selectedNodeId state = Some nid then False else isPanelOpen state)\<rparr>"

section \<open>Field inference (api/specAnalysis.ts)\<close>

datatype AutogenFieldType = Intent | Behavior | Inputs | Outputs | Examples | Constraints

text \<open>
  \<open>fieldMap\<close> is an object literal, so \<open>fieldMap[issue.field]\<close> first looks among its own
  six keys and then, as every property read does, along the prototype chain: a key of
  \<open>Object.prototype\<close> yields the member found there (a function, or the prototype object
  for \<open>__proto__\<close>), which is truthy and so is what \<open>|| null\<close> returns. The result type
  has a case for it.
\<close>

datatype InferResult = Field AutogenFieldType | Null | Inherited jsstring

definition fieldMap :: "(jsstring \<times> AutogenFieldType) list" where
  "fieldMap =
     [(lit ''intent'', Intent), (lit ''behavior'', Behavior), (lit ''inputs'', Inputs),
      (lit ''outputs'', Outputs), (lit ''examples'', Examples),
      (lit ''constraints'', Constraints)]"

definition objectPrototypeKeys :: "jsstring list" where
  "objectPrototypeKeys =
     [lit ''constructor'', lit ''hasOwnProperty'', lit ''isPrototypeOf'',
      lit ''propertyIsEnumerable'', lit ''toLocaleString'', lit ''toString'',
      lit ''valueOf'', lit ''__proto__'', lit ''__defineGetter__'',
      lit ''__defineSetter__'', lit ''__lookupGetter__'', lit ''__lookupSetter__'']"

definition fieldMapLookup :: "jsstring \<Rightarrow> InferResult" where
  "fieldMapLookup k =
     (case map_of fieldMap k of
        Some f \<Rightarrow> Field f
      | None \<Rightarrow> if k \<in> set objectPrototypeKeys then Inherited k else Null)"

definition inferFieldFromIssue :: "(jsstring \<Rightarrow> jsstring) \<Rightarrow> SpecIssue \<Rightarrow> InferResult" where
  "inferFieldFromIssue u issue =
     (let msg = toLowerCase u (message issue) in
      if field issue \<noteq> None \<and> field issue \<noteq> Some [] then fieldMapLookup (the (field issue))
      else if str_includes msg (lit ''intent'') \<or> str_includes msg (lit ''purpose'')
        then Field Intent
      else if str_includes msg (lit ''behavior'') \<or> str_includes msg (lit ''description'')
              \<or> str_includes msg (lit ''describe'')
        then Field Behavior
      else if str_includes msg (lit ''input'') \<and> \<not> str_includes msg (lit ''output'')
        then Field Inputs
      else if str_includes msg (lit ''output'') \<and> \<not> str_includes msg (lit ''input'')
        then Field Outputs
      else if str_includes msg (lit ''example'') \<or> str_includes msg (lit ''edge case'')
        then Field Examples
      else if str_includes msg (lit ''constraint'') \<or> str_includes msg (lit ''requirement'')
              \<or> str_includes msg (lit ''limit'')
        then Field Constraints
      else if dimension issue = Completeness then Field Behavior
      else if dimension issue = Ambiguity then Field Intent
      else Null)"

text \<open>
  \<open>inferFieldFromSuggestion\<close>: \<open>targetNode\<close> starts as \<open>project.nodes[0]\<close> (undefined for
  an empty array) and the loop replaces it by the first node whose name the suggestion
  includes.
\<close>

definition targetNode :: "jsstring \<Rightarrow> VOPLProject \<Rightarrow> VOPLNode option" where
  "targetNode suggestion project =
     (case find (\<lambda>node. str_includes suggestion (name (data node))) (nodes project) of
        Some node \<Rightarrow> Some node
      | None \<Rightarrow> (case nodes project of [] \<Rightarrow> None | node # _ \<Rightarrow> Some node))"

definition suggestionField :: "jsstring \<Rightarrow> AutogenFieldType" where
  "suggestionField suggestionLower =
     (if str_includes suggestionLower (lit ''behavior'')
         \<or> str_includes suggestionLower (lit ''description'')
         \<or> str_includes suggestionLower (lit ''error handling'')
        then Behavior
      else if str_includes suggestionLower (lit ''example'')
              \<or> str_includes suggestionLower (lit ''edge case'')
        then Examples
      else if str_includes suggestionLower (lit ''type'')
              \<or> str_includes suggestionLower (lit ''shape'')
        then (if str_includes suggestionLower (lit ''input'') then Inputs
              else if str_includes suggestionLower (lit ''output'') then Outputs
              else Inputs)
      else if str_includes suggestionLower (lit ''constraint'')
              \<or> str_includes suggestionLower (lit ''requirement'')
        then Constraints
      else Behavior)"

definition inferFieldFromSuggestion ::
  "(jsstring \<Rightarrow> jsstring) \<Rightarrow> jsstring \<Rightarrow> VOPLProject \<Rightarrow> (AutogenFieldType \<times> jsstring) option" where
  "inferFieldFromSuggestion u suggestion project =
     (case targetNode suggestion project of
        None \<Rightarrow> None
      | Some node \<Rightarrow> Some (suggestionField (toLowerCase u suggestion), node_id node))"

section \<open>Values returned by the external model\<close>

text \<open>
  What \<open>JSON.parse\<close> returns is untyped. \<open>JNum\<close> holds the parsed number; \<open>JObj\<close> holds
  the properties of a parsed object, whose keys are distinct. \<open>JUndefined\<close> is what a read
  of a missing property gives.
\<close>

datatype jsval =
    JUndefined
  | JNull
  | JBool bool
  | JNum rat
  | JStr jsstring
  | JArr "jsval list"
  | JObj "(jsstring \<times> jsval) list"

datatype exn = TypeError | SyntaxError | APIError | ErrorObj jsstring

text \<open>
  How an evaluation ends: it returns a value, it throws, or (for an asynchronous function
  that awaits a promise which never settles) it stays pending for ever.
\<close>

datatype 'a completion = Returned 'a | Thrown exn | Pending

fun truthy :: "jsval \<Rightarrow> bool" where
  "truthy JUndefined = False"
| "truthy JNull = False"
| "truthy (JBool b) = b"
| "truthy (JNum x) = (x \<noteq> 0)"
| "truthy (JStr s) = (s \<noteq> [])"
| "truthy (JArr xs) = True"
| "truthy (JObj kvs) = True"

text \<open>\<open>a || b\<close>\<close>

definition or_else :: "jsval \<Rightarrow> jsval \<Rightarrow> jsval" where
  "or_else a b = (if truthy a then a else b)"

text \<open>
  \<open>v.k\<close>, for the property names the adapter reads (none of them is a member of a built-in
  prototype): a read from \<open>undefined\<close> or \<open>null\<close> throws a TypeError, a read from an object
  gives the property or \<open>undefined\<close>, a read from any other value gives \<open>undefined\<close>.
\<close>

fun getProp :: "jsval \<Rightarrow> jsstring \<Rightarrow> jsval completion" where
  "getProp JUndefined k = Thrown TypeError"
| "getProp JNull k = Thrown TypeError"
| "getProp (JObj kvs) k = (case map_of kvs k of Some v \<Rightarrow> Returned v | None \<Rightarrow> Returned JUndefined)"
| "getProp v k = Returned JUndefined"

text \<open>Sequencing: the first step that does not return ends the evaluation.\<close>

definition bindE :: "'a completion \<Rightarrow> ('a \<Rightarrow> 'b completion) \<Rightarrow> 'b completion" where
  "bindE m f = (case m of Returned x \<Rightarrow> f x | Thrown e \<Rightarrow> Thrown e | Pending \<Rightarrow> Pending)"

fun mapE :: "('a \<Rightarrow> 'b completion) \<Rightarrow> 'a list \<Rightarrow> 'b list completion" where
  "mapE f [] = Returned []"
| "mapE f (x # xs) = bindE (f x) (\<lambda>y. bindE (mapE f xs) (\<lambda>ys. Returned (y # ys)))"

section \<open>The external analysis adapter (analyzeSpec)\<close>

datatype ContentBlock = TextBlock jsstring | NonTextBlock

text \<open>
  The outcome of \<open>await client.messages.create(...)\<close>: the promise rejects, it resolves to
  a message with its content blocks, or it never settles.
\<close>

datatype ApiOutcome = Rejected | Message "ContentBlock list" | Unsettled

record AutogenContext =
  ctx_project :: VOPLProject
  ctx_nodeId :: jsstring
  ctx_field :: AutogenFieldType
  issueMessage :: jsstring

text \<open>
  The collaborators of the adapter: the configured credential (\<open>None\<close> when the environment
  variable is not set), the clock, the external model (called with \<open>max_tokens\<close> and the
  prompt), \<open>JSON.parse\<close> (\<open>None\<close> for a SyntaxError), the Unicode lower-casing of the engine,
  and the texts of the two prompts, which are string templates over their arguments.
\<close>

record Env =
  apiKey :: "jsstring option"
  dateNow :: int
  messagesCreate :: "nat \<Rightarrow> jsstring \<Rightarrow> ApiOutcome"
  jsonParse :: "jsstring \<Rightarrow> jsval option"
  unicodeLower :: "jsstring \<Rightarrow> jsstring"
  analysisPromptText :: "VOPLProject \<Rightarrow> jsstring"
  autogenPromptText :: "AutogenContext \<Rightarrow> VOPLNode \<Rightarrow> jsstring"

definition hasApiKey :: "Env \<Rightarrow> bool" where
  "hasApiKey env = (apiKey env \<noteq> None \<and> apiKey env \<noteq> Some [])"

text \<open>The score built from the model's answer: its members are whatever the JSON held.\<close>

record ModelDimension =
  m_score :: jsval
  m_details :: jsval

record ModelIssue =
  m_severity :: jsval
  m_dimension :: jsval
  m_nodeId :: jsval
  m_field :: jsval
  m_message :: jsval

record ModelScore =
  m_overall :: jsval
  m_completeness :: ModelDimension
  m_ambiguity :: ModelDimension
  m_consistency :: ModelDimension
  m_groundedness :: ModelDimension
  m_issues :: "ModelIssue list"
  m_suggestions :: jsval
  m_lastUpdated :: int

datatype Analysis = Heuristic SpecScore | FromModel ModelScore

definition readDimension :: "jsval \<Rightarrow> jsstring \<Rightarrow> ModelDimension completion" where
  "readDimension result k =
     bindE (getProp result k) (\<lambda>d.
     bindE (getProp d (lit ''score'')) (\<lambda>sc.
     bindE (getProp d (lit ''details'')) (\<lambda>dt.
     Returned \<lparr>m_score = sc, m_details = or_else dt (JArr [])\<rparr>)))"

definition readIssue :: "jsval \<Rightarrow> ModelIssue completion" where
  "readIssue issue =
     bindE (getProp issue (lit ''severity'')) (\<lambda>sv.
     bindE (getProp issue (lit ''dimension'')) (\<lambda>dm.
     bindE (getProp issue (lit ''nodeId'')) (\<lambda>nd.
     bindE (getProp issue (lit ''field'')) (\<lambda>fl.
     bindE (getProp issue (lit ''message'')) (\<lambda>ms.
     Returned \<lparr>m_severity = or_else sv (JStr (lit ''warning'')),
          m_dimension = or_else dm (JStr (lit ''completeness'')),
          m_nodeId = or_else nd JUndefined,
          m_field = or_else fl JUndefined,
          m_message = or_else ms (JStr (lit ''Unknown issue''))\<rparr>)))))"

text \<open>\<open>(result.issues || []).map(...)\<close>: only an array has \<open>map\<close>.\<close>

definition readIssues :: "jsval \<Rightarrow> ModelIssue list completion" where
  "readIssues v =
     (case or_else v (JArr []) of
        JArr xs \<Rightarrow> mapE readIssue xs
      | _ \<Rightarrow> Thrown TypeError)"

definition buildModelScore :: "int \<Rightarrow> jsval \<Rightarrow> ModelScore completion" where
  "buildModelScore now result =
     bindE (getProp result (lit ''overall'')) (\<lambda>ov.
     bindE (readDimension result (lit ''completeness'')) (\<lambda>co.
     bindE (readDimension result (lit ''ambiguity'')) (\<lambda>am.
     bindE (readDimension result (lit ''consistency'')) (\<lambda>cs.
     bindE (readDimension result (lit ''groundedness'')) (\<lambda>gr.
     bindE (getProp result (lit ''issues'')) (\<lambda>iv.
     bindE (readIssues iv) (\<lambda>is.
     bindE (getProp result (lit ''suggestions'')) (\<lambda>sg.
     Returned \<lparr>m_overall = ov, m_completeness = co, m_ambiguity = am, m_consistency = cs,
          m_groundedness = gr, m_issues = is, m_suggestions = or_else sg (JArr []),
          m_lastUpdated = now\<rparr>))))))))"

text \<open>
  The text of the first content block: \<open>response.content[0]\<close> is \<open>undefined\<close> for an empty
  array, and reading \<open>type\<close> from it throws; a block that is not text makes the source
  throw its own error.
\<close>

definition responseText :: "ApiOutcome \<Rightarrow> jsstring completion" where
  "responseText r =
     (case r of
        Unsettled \<Rightarrow> Pending
      | Rejected \<Rightarrow> Thrown APIError
      | Message [] \<Rightarrow> Thrown TypeError
      | Message (NonTextBlock # _) \<Rightarrow> Thrown (ErrorObj (lit ''Unexpected response type''))
      | Message (TextBlock text # _) \<Rightarrow> Returned text)"

definition parseJSON :: "Env \<Rightarrow> jsstring \<Rightarrow> jsval completion" where
  "parseJSON env text =
     (case jsonParse env text of None \<Rightarrow> Thrown SyntaxError | Some v \<Rightarrow> Returned v)"

text \<open>
  The body of the \<open>try\<close> block of \<open>analyzeSpec\<close>: the client is built and the prompt is
  rendered inside the block too, and neither throws.
\<close>

definition analyzeSpec_try :: "Env \<Rightarrow> VOPLProject \<Rightarrow> ModelScore completion" where
  "analyzeSpec_try env project =
     bindE (responseText (messagesCreate env 2000 (analysisPromptText env project))) (\<lambda>text.
     bindE (parseJSON env text) (\<lambda>result.
     buildModelScore (dateNow env) result))"

definition analyzeSpec :: "Env \<Rightarrow> VOPLProject \<Rightarrow> Analysis completion" where
  "analyzeSpec env project =
     (if \<not> hasApiKey env then Returned (Heuristic (getMockScore (dateNow env) project))
      else (case analyzeSpec_try env project of
              Returned sc \<Rightarrow> Returned (FromModel sc)
            | Thrown e \<Rightarrow> Returned (Heuristic (getMockScore (dateNow env) project))
            | Pending \<Rightarrow> Pending))"

section \<open>Field autogeneration (autogenField)\<close>

datatype AutogenValue =
    StringValue jsstring
  | PortsValue "PortDefinition list"
  | ExamplesValue "Example list"
  | StringsValue "jsstring list"
  | ModelValue jsval

record AutogenResult =
  success :: bool
  result_field :: AutogenFieldType
  result_value :: AutogenValue
  error :: "jsstring option"

text \<open>\<open>buildAutogenPrompt\<close> throws when the node is not in the project.\<close>

definition buildAutogenPrompt :: "Env \<Rightarrow> AutogenContext \<Rightarrow> jsstring completion" where
  "buildAutogenPrompt env context =
     (case find (\<lambda>n. node_id n = ctx_nodeId context) (nodes (ctx_project context)) of
        None \<Rightarrow> Thrown (ErrorObj (lit ''Node '' @ ctx_nodeId context @ lit '' not found''))
      | Some node \<Rightarrow> Returned (autogenPromptText env context node))"

definition nodeTypeString :: "VOPLNodeType \<Rightarrow> jsstring" where
  "nodeTypeString t = (case t of
     Trigger \<Rightarrow> lit ''trigger'' | Process \<Rightarrow> lit ''process''
   | Integration \<Rightarrow> lit ''integration'' | Output \<Rightarrow> lit ''output'')"

text \<open>The class \<open>\s\<close> of a regular expression: white space and line terminators.\<close>

definition isWhiteSpace :: "16 word \<Rightarrow> bool" where
  "isWhiteSpace c =
     (c \<in> set [0x09, 0x0A, 0x0B, 0x0C, 0x0D, 0x20, 0xA0, 0x1680, 0x2028, 0x2029,
                      0x202F, 0x205F, 0x3000, 0xFEFF]
      \<or> (0x2000 \<le> c \<and> c \<le> 0x200A))"

text \<open>
  \<open>s.replace(/^new\s+/i, '')\<close>: without the \<open>u\<close> flag, a code unit matches a letter of
  \<open>new\<close> when it is that letter in either case.
\<close>

definition replaceLeadingNew :: "jsstring \<Rightarrow> jsstring" where
  "replaceLeadingNew s =
     (if map asciiLower (take 3 s) = lit ''new'' \<and> length s > 3 \<and> isWhiteSpace (s ! 3)
      then dropWhile isWhiteSpace (drop 3 s)
      else s)"

definition mockIntent :: "(jsstring \<Rightarrow> jsstring) \<Rightarrow> VOPLNode \<Rightarrow> jsstring" where
  "mockIntent u node =
     (case node_type node of
        Trigger \<Rightarrow> lit ''Handle incoming''
      | Process \<Rightarrow> lit ''Process and transform''
      | Integration \<Rightarrow> lit ''Integrate with external service to''
      | Output \<Rightarrow> lit ''Produce output for'')
     @ lit '' '' @ replaceLeadingNew (toLowerCase u (name (data node))) @ lit '' operations''"

definition mockBehavior :: "(jsstring \<Rightarrow> jsstring) \<Rightarrow> VOPLNode \<Rightarrow> jsstring" where
  "mockBehavior u node =
     lit ''## Overview'' @ newline
     @ lit ''This '' @ nodeTypeString (node_type node) @ lit '' node handles ''
     @ toLowerCase u (name (data node)) @ lit '' operations.'' @ newline @ newline
     @ lit ''## Steps'' @ newline
     @ lit ''1. Receive input data'' @ newline
     @ lit ''2. Validate the input format'' @ newline
     @ lit ''3. Process according to business rules'' @ newline
     @ lit ''4. Return the result or appropriate error'' @ newline @ newline
     @ lit ''## Error Handling'' @ newline
     @ lit ''- Return descriptive error messages'' @ newline
     @ lit ''- Log errors for debugging''"

definition mockInputs :: "VOPLNode \<Rightarrow> PortDefinition list" where
  "mockInputs node =
     (if length (inputs (data node)) > 0
      then map (\<lambda>i. i\<lparr>shape := (if shape i = lit ''unknown'' then lit ''{ data: unknown }''
                                 else shape i),
                       port_description := (if port_description i \<noteq> [] then port_description i
                                            else lit ''Input data for '' @ port_name i)\<rparr>)
             (inputs (data node))
      else [\<lparr>port_name = lit ''input'', port_description = lit ''Primary input data'',
             shape = lit ''{ data: unknown }''\<rparr>])"

definition mockOutputs :: "VOPLNode \<Rightarrow> PortDefinition list" where
  "mockOutputs node =
     (if length (outputs (data node)) > 0
      then map (\<lambda>out. out\<lparr>shape := (if shape out = lit ''unknown'' then lit ''{ result: unknown }''
                                     else shape out),
                           port_description := (if port_description out \<noteq> []
                                                then port_description out
                                                else lit ''Output data from '' @ port_name out)\<rparr>)
             (outputs (data node))
      else [\<lparr>port_name = lit ''output'', port_description = lit ''Primary output data'',
             shape = lit ''{ result: unknown }''\<rparr>])"

definition mockExamples :: "Example list" where
  "mockExamples =
     [\<lparr>ex_input = lit ''{ '' @ dquote @ lit ''data'' @ dquote @ lit '': '' @ dquote
                   @ lit ''example input'' @ dquote @ lit '' }'',
       ex_output = lit ''{ '' @ dquote @ lit ''result'' @ dquote @ lit '': '' @ dquote
                   @ lit ''processed output'' @ dquote @ lit '' }'',
       ex_notes = lit ''Happy path scenario''\<rparr>,
      \<lparr>ex_input = lit ''{ '' @ dquote @ lit ''data'' @ dquote @ lit '': null }'',
       ex_output = lit ''{ '' @ dquote @ lit ''error'' @ dquote @ lit '': '' @ dquote
                   @ lit ''Invalid input'' @ dquote @ lit '' }'',
       ex_notes = lit ''Error handling example''\<rparr>]"

definition mockConstraints :: "jsstring list" where
  "mockConstraints =
     [lit ''Must complete within reasonable time limits'',
      lit ''Should handle invalid input gracefully'',
      lit ''Must maintain data consistency'']"

text \<open>The object \<open>getMockAutogenResult\<close> returns when the node is not in the project.\<close>

definition notFoundResult :: "AutogenFieldType \<Rightarrow> AutogenResult" where
  "notFoundResult f =
     \<lparr>success = False, result_field = f, result_value = StringValue [],
      error = Some (lit ''Node not found'')\<rparr>"

text \<open>
  \<open>getMockAutogenResult\<close>. The \<open>default\<close> branch of its \<open>switch\<close> is not reachable for a
  field of the six kinds.
\<close>

definition getMockAutogenResult :: "(jsstring \<Rightarrow> jsstring) \<Rightarrow> AutogenContext \<Rightarrow> AutogenResult" where
  "getMockAutogenResult u context =
     (case find (\<lambda>n. node_id n = ctx_nodeId context) (nodes (ctx_project context)) of
        None \<Rightarrow> notFoundResult (ctx_field context)
      | Some node \<Rightarrow>
          \<lparr>success = True, result_field = ctx_field context,
           result_value =
             (case ctx_field context of
                Intent \<Rightarrow> StringValue (mockIntent u node)
              | Behavior \<Rightarrow> StringValue (mockBehavior u node)
              | Inputs \<Rightarrow> PortsValue (mockInputs node)
              | Outputs \<Rightarrow> PortsValue (mockOutputs node)
              | Examples \<Rightarrow> ExamplesValue mockExamples
              | Constraints \<Rightarrow> StringsValue mockConstraints),
           error = None\<rparr>)"

text \<open>The body of the \<open>try\<close> block of \<open>autogenField\<close>.\<close>

definition autogenField_try :: "Env \<Rightarrow> AutogenContext \<Rightarrow> AutogenResult completion" where
  "autogenField_try env context =
     bindE (buildAutogenPrompt env context) (\<lambda>prompt.
     bindE (responseText (messagesCreate env 1500 prompt)) (\<lambda>text.
     bindE (parseJSON env text) (\<lambda>result.
     bindE (getProp result (lit ''value'')) (\<lambda>v.
     Returned \<lparr>success = True, result_field = ctx_field context,
          result_value = ModelValue v, error = None\<rparr>))))"

definition autogenField :: "Env \<Rightarrow> AutogenContext \<Rightarrow> AutogenResult completion" where
  "autogenField env context =
     (if \<not> hasApiKey env then Returned (getMockAutogenResult (unicodeLower env) context)
      else (case autogenField_try env context of
              Returned r \<Rightarrow> Returned r
            | Thrown e \<Rightarrow> Returned (getMockAutogenResult (unicodeLower env) context)
            | Pending \<Rightarrow> Pending))"

section \<open>Vocabulary of the specification\<close>

text \<open>
  The notions the specification uses, stated in its own words, to compare with what the
  source computes: a node is unconnected when no edge leaves it or enters it; the per-node
  completeness score is a sum of credits; the target of a suggestion is the first node
  whose name occurs in it, or else the first node; a message matches a keyword when one
  of the twelve keywords of the issue inference occurs in it; the fallback of the
  analysis is the heuristic score of the same project.
\<close>

definition isolated :: "VOPLProject \<Rightarrow> VOPLNode \<Rightarrow> bool" where
  "isolated p n = (\<forall>e \<in> set (edges p). source e \<noteq> node_id n \<and> target e \<noteq> node_id n)"

definition credit :: "bool \<Rightarrow> nat \<Rightarrow> nat" where
  "credit b pts = (if b then pts else 0)"

definition specNodeScore :: "VOPLNode \<Rightarrow> nat" where
  "specNodeScore n =
     credit (name (data n) \<noteq> [] \<and> \<not> prefix (lit ''New '') (name (data n))) 10
   + credit (length (intent (data n)) > 20) 20
   + credit (length (behavior (data n)) > 50) 30
   + credit (\<exists>p \<in> set (inputs (data n)). shape p \<noteq> [] \<and> shape p \<noteq> lit ''unknown'') 15
   + credit (\<exists>p \<in> set (outputs (data n)). shape p \<noteq> [] \<and> shape p \<noteq> lit ''unknown'') 15
   + credit (examples (data n) \<noteq> []) 10"

definition specTarget :: "jsstring \<Rightarrow> VOPLProject \<Rightarrow> VOPLNode" where
  "specTarget s p =
     (case find (\<lambda>n. sublist (name (data n)) s) (nodes p) of
        Some n \<Rightarrow> n
      | None \<Rightarrow> hd (nodes p))"

definition anyKeyword :: "jsstring \<Rightarrow> bool" where
  "anyKeyword msg = list_ex (str_includes msg)
     [lit ''intent'', lit ''purpose'', lit ''behavior'', lit ''description'', lit ''describe'',
      lit ''input'', lit ''output'', lit ''example'', lit ''edge case'', lit ''constraint'',
      lit ''requirement'', lit ''limit'']"

definition heuristicResult :: "Env \<Rightarrow> VOPLProject \<Rightarrow> Analysis completion" where
  "heuristicResult env p = Returned (Heuristic (getMockScore (dateNow env) p))"

section \<open>Example projects\<close>

definition plainEdge :: "jsstring \<Rightarrow> jsstring \<Rightarrow> jsstring \<Rightarrow> VOPLEdge" where
  "plainEdge i s t = \<lparr>edge_id = i, source = s, target = t, sourceHandle = None,
      targetHandle = None, label = None, dataShape = None\<rparr>"

definition crowdedProject :: VOPLProject where
  "crowdedProject =
     (createEmptyProject (lit ''p1'') 0)
       \<lparr>nodes := map (\<lambda>i. newNode i Process (0, 0))
          [lit ''n1'', lit ''n2'', lit ''n3'', lit ''n4'', lit ''n5'', lit ''n6'',
           lit ''n7'', lit ''n8'', lit ''n9'', lit ''n10'', lit ''n11''],
        edges := [plainEdge (lit ''e1'') (lit ''n1'') (lit ''n2'')]\<rparr>"

definition threeNodeProject :: VOPLProject where
  "threeNodeProject =
     (createEmptyProject (lit ''p2'') 0)
       \<lparr>nodes := [newNode (lit ''a'') Trigger (0, 0), newNode (lit ''b'') Process (1, 0),
                  newNode (lit ''c'') Output (2, 0)],
        edges := [plainEdge (lit ''e1'') (lit ''a'') (lit ''b'')]\<rparr>"

definition twoDraftsProject :: VOPLProject where
  "twoDraftsProject =
     (createEmptyProject (lit ''p3'') 0)
       \<lparr>nodes := [newNode (lit ''a'') Trigger (0, 0), newNode (lit ''b'') Process (1, 0)]\<rparr>"

definition contextOnlyProject :: VOPLProject where
  "contextOnlyProject =
     (createEmptyProject (lit ''p4'') 0)
       \<lparr>systemContext :=
          \<lparr>environment = lit ''Node.js 20.x runtime on Linux server'',
           sc_constraints = lit ''Max 100MB memory, 10s request timeout'',
           infrastructure = lit ''PostgreSQL database for user storage'',
           dependencies = lit ''Express.js web framework'',
           security = lit ''HTTPS only, rate limiting'',
           nonFunctional = lit ''99.9% availability target''\<rparr>\<rparr>"

text \<open>
  A project of fourteen nodes with the whole system context filled: thirteen nodes with a
  name of their own and a shape on both sides, one new node without examples, and a chain
  of edges through the first eight nodes.
\<close>

definition shapedPort :: "jsstring \<Rightarrow> PortDefinition" where
  "shapedPort n = \<lparr>port_name = n, port_description = [], shape = lit ''string''\<rparr>"

definition finishedNode :: "jsstring \<Rightarrow> VOPLNode" where
  "finishedNode i =
     \<lparr>node_id = i, node_type = Process, position = (0, 0),
      data = (defaultNodeData Process)
        \<lparr>name := lit ''Validate Input'',
         inputs := [shapedPort (lit ''input'')],
         outputs := [shapedPort (lit ''result'')]\<rparr>\<rparr>"

definition bareNode :: "jsstring \<Rightarrow> VOPLNode" where
  "bareNode i =
     \<lparr>node_id = i, node_type = Process, position = (0, 0),
      data = (defaultNodeData Process)\<lparr>examples := []\<rparr>\<rparr>"

definition roundingProject :: VOPLProject where
  "roundingProject =
     contextOnlyProject
       \<lparr>nodes := map finishedNode
                   [lit ''n1'', lit ''n2'', lit ''n3'', lit ''n4'', lit ''n5'', lit ''n6'', lit ''n7'',
                    lit ''n8'', lit ''n9'', lit ''n10'', lit ''n11'', lit ''n12'', lit ''n13'']
                 @ [bareNode (lit ''n14'')],
        edges := [plainEdge (lit ''e1'') (lit ''n1'') (lit ''n2''),
                  plainEdge (lit ''e2'') (lit ''n2'') (lit ''n3''),
                  plainEdge (lit ''e3'') (lit ''n3'') (lit ''n4''),
                  plainEdge (lit ''e4'') (lit ''n4'') (lit ''n5''),
                  plainEdge (lit ''e5'') (lit ''n5'') (lit ''n6''),
                  plainEdge (lit ''e6'') (lit ''n6'') (lit ''n7''),
                  plainEdge (lit ''e7'') (lit ''n7'') (lit ''n8'')]\<rparr>"

text \<open>
  A project of twenty-four nodes without edges, with two fields of the system context
  filled: twenty-three nodes whose fields are all empty, and one with a name and a shape
  on its input.
\<close>

definition blankNode :: "jsstring \<Rightarrow> VOPLNode" where
  "blankNode i =
     \<lparr>node_id = i, node_type = Process, position = (0, 0),
      data = \<lparr>name = [], intent = [], inputs = [], outputs = [], behavior = [],
              examples = [], constraints = []\<rparr>\<rparr>"

definition sparseProject :: VOPLProject where
  "sparseProject =
     (createEmptyProject (lit ''p6'') 0)
       \<lparr>systemContext := defaultSystemContext
          \<lparr>environment := lit ''Node.js 20.x runtime on Linux server'',
           infrastructure := lit ''PostgreSQL database for user storage''\<rparr>,
        nodes := map blankNode
                   [lit ''b1'', lit ''b2'', lit ''b3'', lit ''b4'', lit ''b5'', lit ''b6'',
                    lit ''b7'', lit ''b8'', lit ''b9'', lit ''b10'', lit ''b11'', lit ''b12'',
                    lit ''b13'', lit ''b14'', lit ''b15'', lit ''b16'', lit ''b17'', lit ''b18'',
                    lit ''b19'', lit ''b20'', lit ''b21'', lit ''b22'', lit ''b23'']
                 @ [(blankNode (lit ''b24''))
                      \<lparr>data := (data (blankNode (lit ''b24'')))
                         \<lparr>name := lit ''Validate Input'',
                          inputs := [shapedPort (lit ''input'')]\<rparr>\<rparr>]\<rparr>"

definition behaviorSuggestion :: jsstring where
  "behaviorSuggestion =
     lit ''Add detailed behavior descriptions with error handling to each node.''"

definition registrationProject :: VOPLProject where
  "registrationProject =
     (createEmptyProject (lit ''p5'') 0)
       \<lparr>nodes :=
          [\<lparr>node_id = lit ''trigger-1'', node_type = Trigger, position = (100, 200),
            data = (defaultNodeData Trigger)
              \<lparr>name := lit ''POST /register'',
               intent := lit ''Handle incoming user registration requests via HTTP POST''\<rparr>\<rparr>,
           \<lparr>node_id = lit ''process-1'', node_type = Process, position = (350, 100),
            data = (defaultNodeData Process)
              \<lparr>name := lit ''Validate Input'',
               intent := lit ''Validate email format and password strength''\<rparr>\<rparr>],
        edges := [(plainEdge (lit ''e1'') (lit ''trigger-1'') (lit ''process-1''))
                    \<lparr>sourceHandle := Some (lit ''body''), targetHandle := Some (lit ''body'')\<rparr>]\<rparr>"

definition inheritedFieldIssue :: SpecIssue where
  "inheritedFieldIssue =
     \<lparr>severity = Warning, dimension = Completeness, nodeId = Some (lit ''process-1''),
      edgeId = None, field = Some (lit ''constructor''),
      message = lit ''The node has no error handling.''\<rparr>"

definition namedSuggestion :: jsstring where
  "namedSuggestion = lit ''Give Validate Input a constraint on the password length.''"

section \<open>Example environments\<close>

definition offlineEnv :: Env where
  "offlineEnv =
     \<lparr>apiKey = None, dateNow = 1700000000000,
      messagesCreate = (\<lambda>max_tokens prompt. Rejected),
      jsonParse = (\<lambda>text. None),
      unicodeLower = (\<lambda>s. s),
      analysisPromptText = (\<lambda>project. []),
      autogenPromptText = (\<lambda>context node. [])\<rparr>"

text \<open>An environment with a credential whose model answers with the given outcome, and
  whose parser knows the texts of the given table.\<close>

definition keyedEnv :: "ApiOutcome \<Rightarrow> (jsstring \<times> jsval) list \<Rightarrow> Env" where
  "keyedEnv outcome parses =
     offlineEnv\<lparr>apiKey := Some (lit ''sk-test''),
                messagesCreate := (\<lambda>max_tokens prompt. outcome),
                jsonParse := map_of parses\<rparr>"

definition ghostContext :: AutogenContext where
  "ghostContext =
     \<lparr>ctx_project = threeNodeProject, ctx_nodeId = lit ''deleted-node'',
      ctx_field = Behavior, issueMessage = lit ''Behavior is missing.''\<rparr>"

definition goodAnswer :: jsval where
  "goodAnswer = JObj
     [(lit ''overall'', JNum 72),
      (lit ''completeness'', JObj [(lit ''score'', JNum 80), (lit ''details'', JArr [])]),
      (lit ''ambiguity'', JObj [(lit ''score'', JNum 60)]),
      (lit ''consistency'', JObj [(lit ''score'', JNum 75), (lit ''details'', JArr [JStr (lit ''ok'')])]),
      (lit ''groundedness'', JObj [(lit ''score'', JNum 70), (lit ''details'', JArr [])]),
      (lit ''issues'', JArr [JObj [(lit ''message'', JStr (lit ''Intent is vague''))]])]"

text \<open>An answer whose four dimension objects hold no score.\<close>

definition scorelessAnswer :: jsval where
  "scorelessAnswer = JObj
     [(lit ''completeness'', JObj []), (lit ''ambiguity'', JObj []),
      (lit ''consistency'', JObj []), (lit ''groundedness'', JObj [])]"

section \<open>Properties of the string operations\<close>

lemma of_char_word_eq_iff: "(of_char c :: 16 word) = of_char d \<longleftrightarrow> c = d"
proof
  assume h: "(of_char c :: 16 word) = of_char d"
  have lt: "(of_char x :: nat) < 65536" for x
  proof -
    have "(of_char x :: nat) mod 256 < 256" by simp
    then have "(of_char x :: nat) < 256" by simp
    then show ?thesis by linarith
  qed
  from h have "(of_nat (of_char c) :: 16 word) = of_nat (of_char d)"
    by (simp only: of_nat_of_char)
  then have "unat (of_nat (of_char c) :: 16 word) = unat (of_nat (of_char d) :: 16 word)"
    by simp
  then have "(of_char c :: nat) = of_char d"
    using lt[of c] lt[of d] by (simp add: unat_of_nat)
  then show "c = d" by simp
qed simp

lemma lit_eq_iff [simp]: "lit s = lit t \<longleftrightarrow> s = t"
proof -
  have "inj (of_char :: char \<Rightarrow> 16 word)"
    by (rule injI) (simp add: of_char_word_eq_iff)
  then show ?thesis by (simp add: lit_def inj_map_eq_map)
qed

lemma lit_Nil_iff [simp]: "lit s = [] \<longleftrightarrow> s = []" "[] = lit s \<longleftrightarrow> s = []"
  by (auto simp add: lit_def)

lemma length_lit [simp]: "length (lit s) = length s"
  by (simp add: lit_def)

lemma startsWith_iff_prefix: "startsWith s t \<longleftrightarrow> prefix t s"
  unfolding startsWith_def
  by (metis append_eq_conv_conj prefix_def take_is_prefix)

lemma str_includes_iff_sublist: "str_includes s t \<longleftrightarrow> sublist t s"
proof (induction s)
  case Nil
  then show ?case by simp
next
  case (Cons c s)
  show ?case
  proof (cases t)
    case Nil
    then show ?thesis by (simp add: startsWith_def)
  next
    case (Cons d t')
    then show ?thesis
      using Cons.IH by (simp add: startsWith_iff_prefix sublist_Cons_right)
  qed
qed

section \<open>Properties of the number operations\<close>

lemma binaryExponent_bounds:
  assumes "0 < x"
  shows "2 powi binaryExponent x \<le> x \<and> x < 2 powi (binaryExponent x + 1)"
proof -
  obtain a b where q: "quotient_of x = (a, b)" by (cases "quotient_of x")
  have b: "0 < b" using quotient_of_denom_pos[OF q] .
  have x: "x = of_int a / of_int b" using quotient_of_div[OF q] .
  have a: "0 < a" using assms b unfolding x by (simp add: zero_less_divide_iff)
  define A where "A = nat a"
  define B where "B = nat b"
  have A: "0 < A" "of_int a = (of_nat A :: rat)" using a by (simp_all add: A_def)
  have B: "0 < B" "of_int b = (of_nat B :: rat)" using b by (simp_all add: B_def)
  define la where "la = floorlog 2 A"
  define lb where "lb = floorlog 2 B"
  have la: "2 ^ (la - 1) \<le> A" "A < 2 ^ la" using floorlog_bounds[of A 2] A by (simp_all add: la_def)
  have lb: "2 ^ (lb - 1) \<le> B" "B < 2 ^ lb" using floorlog_bounds[of B 2] B by (simp_all add: lb_def)
  have la1: "1 \<le> la" using A by (simp add: la_def floorlog_def)
  have lb1: "1 \<le> lb" using B by (simp add: lb_def floorlog_def)
  define d where "d = int la - int lb"
  have xq: "x = of_nat A / of_nat B" using x A B by simp
  have up: "x < 2 powi (d + 1)"
  proof -
    have "(of_nat A :: rat) < 2 ^ la" using la(2) by (metis of_nat_less_iff of_nat_numeral of_nat_power)
    moreover have "(2 :: rat) ^ (lb - 1) \<le> of_nat B" using lb(1) by (metis of_nat_le_iff of_nat_numeral of_nat_power)
    ultimately have "x < 2 ^ la / 2 ^ (lb - 1)"
      unfolding xq using B(1) by (intro frac_less) simp_all
    also have "(2::rat) ^ la / 2 ^ (lb - 1) = 2 powi (int la - int (lb - 1))"
      by (simp add: power_int_diff)
    also have "int la - int (lb - 1) = d + 1" using lb1 by (simp add: d_def)
    finally show ?thesis .
  qed
  have low: "2 powi (d - 1) < x"
  proof -
    have "(of_nat A :: rat) \<ge> 2 ^ (la - 1)" using la(1) by (metis of_nat_le_iff of_nat_numeral of_nat_power)
    moreover have "(of_nat B :: rat) < 2 ^ lb" using lb(2) by (metis of_nat_less_iff of_nat_numeral of_nat_power)
    ultimately have "2 ^ (la - 1) / 2 ^ lb < x"
      unfolding xq using B(1) by (intro frac_less2) simp_all
    moreover have "(2::rat) ^ (la - 1) / 2 ^ lb = 2 powi (int (la - 1) - int lb)"
      by (simp add: power_int_diff)
    moreover have "int (la - 1) - int lb = d - 1" using la1 by (simp add: d_def)
    ultimately show ?thesis by simp
  qed
  have e: "binaryExponent x = (if 2 powi d \<le> x then d else d - 1)"
    by (simp add: binaryExponent_def q d_def la_def lb_def A_def B_def Let_def)
  show ?thesis
  proof (cases "2 powi d \<le> x")
    case True
    then show ?thesis using up by (simp add: e)
  next
    case False
    then show ?thesis using low by (simp add: e)
  qed
qed

lemma binaryExponent_unique:
  assumes "2 powi e \<le> x" "x < 2 powi (e + 1)"
  shows "binaryExponent x = e"
proof -
  have pos: "0 < x" using assms(1) by (rule less_le_trans[rotated]) simp
  note b = binaryExponent_bounds[OF pos]
  have "\<not> binaryExponent x < e"
  proof
    assume "binaryExponent x < e"
    then have "(2::rat) powi (binaryExponent x + 1) \<le> 2 powi e"
      by (intro power_int_increasing) simp_all
    then show False using b assms by linarith
  qed
  moreover have "\<not> e < binaryExponent x"
  proof
    assume "e < binaryExponent x"
    then have "(2::rat) powi (e + 1) \<le> 2 powi binaryExponent x"
      by (intro power_int_increasing) simp_all
    then show False using b assms by linarith
  qed
  ultimately show ?thesis by simp
qed

lemma binaryExponent_mono:
  assumes "0 < x" "x \<le> y"
  shows "binaryExponent x \<le> binaryExponent y"
proof (rule ccontr)
  assume "\<not> ?thesis"
  then have "binaryExponent y + 1 \<le> binaryExponent x" by simp
  then have "(2::rat) powi (binaryExponent y + 1) \<le> 2 powi binaryExponent x"
    by (intro power_int_increasing) simp_all
  moreover have "0 < y" using assms by simp
  ultimately show False
    using binaryExponent_bounds[OF assms(1)] binaryExponent_bounds[OF \<open>0 < y\<close>] assms(2)
    by linarith
qed

lemma roundHalfEven_near:
  "of_int (roundHalfEven q) \<le> q + 1 / 2 \<and> q - 1 / 2 \<le> of_int (roundHalfEven q)"
proof -
  have "of_int \<lfloor>q\<rfloor> \<le> q" "q < of_int \<lfloor>q\<rfloor> + 1" by linarith+
  then show ?thesis unfolding roundHalfEven_def by (auto simp add: not_less; linarith)
qed

lemma roundHalfEven_eqI:
  assumes "of_int n - 1 / 2 < q" "q < of_int n + 1 / 2"
  shows "roundHalfEven q = n"
proof -
  have f: "of_int \<lfloor>q\<rfloor> \<le> q" "q < of_int \<lfloor>q\<rfloor> + 1" by linarith+
  consider "\<lfloor>q\<rfloor> = n" | "\<lfloor>q\<rfloor> = n - 1"
  proof -
    have "n - 1 \<le> \<lfloor>q\<rfloor>" using assms(1) by (simp add: le_floor_iff, linarith?)
    moreover have "\<lfloor>q\<rfloor> \<le> n" using assms(2) by (simp add: floor_le_iff, linarith?)
    ultimately show ?thesis using that by linarith
  qed
  then show ?thesis
  proof cases
    case 1
    then show ?thesis using assms f unfolding roundHalfEven_def by auto
  next
    case 2
    then have "1 / 2 < q - of_int \<lfloor>q\<rfloor>" using assms(1) by simp
    then show ?thesis using 2 unfolding roundHalfEven_def by auto
  qed
qed

lemma roundHalfEven_of_int [simp]: "roundHalfEven (of_int n) = n"
  by (rule roundHalfEven_eqI) simp_all

lemma roundHalfEven_tie:
  assumes "q = of_int n + 1 / 2"
  shows "roundHalfEven q = (if even n then n else n + 1)"
proof -
  have "\<lfloor>q\<rfloor> = n" unfolding assms by (rule floor_unique) simp_all
  then show ?thesis unfolding roundHalfEven_def by (simp add: assms)
qed

lemma roundHalfEven_mono:
  assumes "q \<le> r"
  shows "roundHalfEven q \<le> roundHalfEven r"
proof (cases "\<lfloor>q\<rfloor> = \<lfloor>r\<rfloor>")
  case True
  then show ?thesis using assms unfolding roundHalfEven_def by auto
next
  case False
  then have "\<lfloor>q\<rfloor> + 1 \<le> \<lfloor>r\<rfloor>" using floor_mono[OF assms] by linarith
  moreover have "roundHalfEven q \<le> \<lfloor>q\<rfloor> + 1" unfolding roundHalfEven_def by auto
  moreover have "\<lfloor>r\<rfloor> \<le> roundHalfEven r" unfolding roundHalfEven_def by auto
  ultimately show ?thesis by linarith
qed


lemma roundHalfEven_numeral [simp]: "roundHalfEven (numeral k) = numeral k"
  using roundHalfEven_of_int[of "numeral k"] by simp

lemma ulp_times: "2 ^ 52 * 2 powi (e - 52) = (2 :: rat) powi e"
proof -
  have "(2 :: rat) powi (52 + (e - 52)) = 2 powi 52 * 2 powi (e - 52)"
    by (rule power_int_add) simp
  moreover have "52 + (e - 52) = e" by simp
  ultimately show ?thesis by (simp del: power_int_add_numeral power_int_add_numeral2)
qed

lemma ulp_times': "2 ^ 53 * 2 powi (e - 52) = (2 :: rat) powi (e + 1)"
proof -
  have "(2 :: rat) powi (53 + (e - 52)) = 2 powi 53 * 2 powi (e - 52)"
    by (rule power_int_add) simp
  moreover have "53 + (e - 52) = e + 1" by simp
  ultimately show ?thesis by (simp del: power_int_add_numeral power_int_add_numeral2)
qed

lemma roundPositive_range:
  assumes "0 < x"
  shows "2 powi binaryExponent x \<le> roundPositive x
       \<and> roundPositive x \<le> 2 powi (binaryExponent x + 1)"
proof -
  define e where "e = binaryExponent x"
  define u :: rat where "u = 2 powi (e - 52)"
  define m where "m = roundHalfEven (x / u)"
  have u: "0 < u" by (simp add: u_def)
  have b: "2 powi e \<le> x" "x < 2 powi (e + 1)"
    using binaryExponent_bounds[OF assms] by (simp_all add: e_def)
  have "2 ^ 52 * u \<le> x" using b(1) by (simp only: u_def ulp_times)
  then have "2 ^ 52 \<le> x / u" using u by (simp add: le_divide_eq)
  then have "roundHalfEven (2 ^ 52) \<le> m" unfolding m_def by (rule roundHalfEven_mono)
  then have lo: "2 ^ 52 \<le> m" by simp
  have "x \<le> 2 ^ 53 * u" using b(2) by (simp only: u_def ulp_times')
  then have "x / u \<le> 2 ^ 53" using u by (simp add: divide_le_eq)
  then have "m \<le> roundHalfEven (2 ^ 53)" unfolding m_def by (rule roundHalfEven_mono)
  then have hi: "m \<le> 2 ^ 53" by simp
  have r: "roundPositive x = of_int m * u"
    by (simp add: roundPositive_def u_def e_def m_def)
  have "(2 :: rat) ^ 52 \<le> of_int m" using lo by (metis of_int_le_iff of_int_numeral of_int_power)
  then have "2 ^ 52 * u \<le> of_int m * u" using u by (intro mult_right_mono) simp_all
  moreover have "of_int m \<le> (2 :: rat) ^ 53" using hi by (metis of_int_le_iff of_int_numeral of_int_power)
  then have "of_int m * u \<le> 2 ^ 53 * u" using u by (intro mult_right_mono) simp_all
  ultimately show ?thesis
    unfolding r e_def[symmetric] by (simp only: u_def ulp_times ulp_times')
qed

lemma roundPositive_pos: "0 < x \<Longrightarrow> 0 < roundPositive x"
  using roundPositive_range[of x] by (rule_tac less_le_trans[of _ "2 powi binaryExponent x"]) simp_all

lemma roundPositive_mono:
  assumes "0 < x" "x \<le> y"
  shows "roundPositive x \<le> roundPositive y"
proof -
  have y: "0 < y" using assms by simp
  have le: "binaryExponent x \<le> binaryExponent y" using assms by (rule binaryExponent_mono)
  show ?thesis
  proof (cases "binaryExponent x = binaryExponent y")
    case True
    have u: "(0 :: rat) < 2 powi (binaryExponent y - 52)" by simp
    have "x / 2 powi (binaryExponent y - 52) \<le> y / 2 powi (binaryExponent y - 52)"
      using assms(2) u by (simp add: divide_right_mono)
    then have "roundHalfEven (x / 2 powi (binaryExponent y - 52))
        \<le> roundHalfEven (y / 2 powi (binaryExponent y - 52))"
      by (rule roundHalfEven_mono)
    then show ?thesis
      unfolding roundPositive_def True using u by (intro mult_right_mono) simp_all
  next
    case False
    then have "binaryExponent x + 1 \<le> binaryExponent y" using le by simp
    then have "(2 :: rat) powi (binaryExponent x + 1) \<le> 2 powi binaryExponent y"
      by (intro power_int_increasing) simp_all
    then show ?thesis
      using roundPositive_range[OF assms(1)] roundPositive_range[OF y] by linarith
  qed
qed

lemma toDouble_minus: "toDouble (- x) = - toDouble x"
  by (simp add: toDouble_def)

lemma toDouble_nonneg: "0 \<le> x \<Longrightarrow> 0 \<le> toDouble x"
  using roundPositive_pos[of x] by (auto simp add: toDouble_def less_le)

lemma toDouble_nonpos: "x \<le> 0 \<Longrightarrow> toDouble x \<le> 0"
  using toDouble_nonneg[of "- x"] by (simp add: toDouble_minus)

lemma toDouble_mono:
  assumes "x \<le> y"
  shows "toDouble x \<le> toDouble y"
proof -
  consider "0 < x" | "x \<le> 0" "0 \<le> y" | "y < 0" by linarith
  then show ?thesis
  proof cases
    case 1
    then show ?thesis using assms roundPositive_mono[of x y] by (simp add: toDouble_def)
  next
    case 2
    then show ?thesis using toDouble_nonneg[of y] toDouble_nonpos[of x] by linarith
  next
    case 3
    then have "0 < - y" "- y \<le> - x" using assms by simp_all
    then have "roundPositive (- y) \<le> roundPositive (- x)" by (rule roundPositive_mono)
    then show ?thesis using 3 assms by (simp add: toDouble_def)
  qed
qed

lemma toDouble_eqI:
  assumes "2 powi e \<le> x" "x < 2 powi (e + 1)"
    and "(of_int n - 1 / 2) * 2 powi (e - 52) < x" "x < (of_int n + 1 / 2) * 2 powi (e - 52)"
  shows "toDouble x = of_int n * 2 powi (e - 52)"
proof -
  have pos: "0 < x" using assms(1) by (rule less_le_trans[rotated]) simp
  have e: "binaryExponent x = e" using assms(1,2) by (rule binaryExponent_unique)
  have u: "(0 :: rat) < 2 powi (e - 52)" by simp
  have "roundHalfEven (x / 2 powi (e - 52)) = n"
    using assms(3,4) u by (intro roundHalfEven_eqI) (simp_all add: less_divide_eq divide_less_eq)
  then show ?thesis using pos by (simp add: toDouble_def roundPositive_def e)
qed

lemma toDouble_tieI:
  assumes "2 powi e \<le> x" "x < 2 powi (e + 1)"
    and "x = (of_int n + 1 / 2) * 2 powi (e - 52)"
  shows "toDouble x = of_int (if even n then n else n + 1) * 2 powi (e - 52)"
proof -
  have pos: "0 < x" using assms(1) by (rule less_le_trans[rotated]) simp
  have e: "binaryExponent x = e" using assms(1,2) by (rule binaryExponent_unique)
  have "x / 2 powi (e - 52) = of_int n + 1 / 2" unfolding assms(3) by simp
  then have "roundHalfEven (x / 2 powi (e - 52)) = (if even n then n else n + 1)"
    by (rule roundHalfEven_tie)
  then show ?thesis using pos by (simp add: toDouble_def roundPositive_def e)
qed


lemma toDouble_exact:
  assumes "0 < n" "n < 2 ^ 53"
  shows "toDouble (of_int n * 2 powi k) = of_int n * 2 powi k"
proof -
  define x :: rat where "x = of_int n * 2 powi k"
  have pos: "0 < x" using assms(1) by (simp add: x_def)
  define e where "e = binaryExponent x"
  have b: "2 powi e \<le> x" "x < 2 powi (e + 1)"
    using binaryExponent_bounds[OF pos] by (simp_all add: e_def)
  have "(of_int n :: rat) < 2 ^ 53" using assms(2) by (metis of_int_less_iff of_int_numeral of_int_power)
  then have "x < 2 ^ 53 * 2 powi k" unfolding x_def by (intro mult_strict_right_mono) simp_all
  also have "(2 :: rat) ^ 53 * 2 powi k = 2 powi (53 + k)"
    using power_int_add[of "2 :: rat" 53 k] by simp
  finally have "(2 :: rat) powi e < 2 powi (53 + k)" using b(1) by simp
  then have "e < 53 + k"
  proof (rule_tac ccontr)
    assume a: "(2 :: rat) powi e < 2 powi (53 + k)" "\<not> e < 53 + k"
    then have "(2 :: rat) powi (53 + k) \<le> 2 powi e"
      by (intro power_int_increasing) simp_all
    then show False using a(1) by simp
  qed
  then have j: "0 \<le> k - e + 52" by simp
  have "x / 2 powi (e - 52) = of_int n * (2 powi k / 2 powi (e - 52))" by (simp add: x_def)
  also have "(2 :: rat) powi k / 2 powi (e - 52) = 2 powi (k - (e - 52))"
    by (simp add: power_int_diff)
  also have "\<dots> = 2 ^ nat (k - e + 52)"
    using j by (simp add: power_int_nonneg_exp algebra_simps)
  finally have "x / 2 powi (e - 52) = of_int (n * 2 ^ nat (k - e + 52))" by simp
  then have "roundHalfEven (x / 2 powi (e - 52)) = n * 2 ^ nat (k - e + 52)"
    by (simp only: roundHalfEven_of_int)
  then have "roundPositive x = of_int (n * 2 ^ nat (k - e + 52)) * 2 powi (e - 52)"
    by (simp add: roundPositive_def e_def)
  also have "\<dots> = x / 2 powi (e - 52) * 2 powi (e - 52)"
    using \<open>x / 2 powi (e - 52) = of_int (n * 2 ^ nat (k - e + 52))\<close> by simp
  also have "\<dots> = x" by simp
  finally show ?thesis using pos by (simp add: toDouble_def x_def)
qed

lemma toDouble_numeral [simp]: "numeral w < (2 :: int) ^ 53 \<Longrightarrow> toDouble (numeral w) = numeral w"
  using toDouble_exact[of "numeral w" 0] by simp

lemma toDouble_0 [simp]: "toDouble 0 = 0"
  by (simp add: toDouble_def)


lemma roundPositive_form:
  assumes "0 < x"
  shows "\<exists>m. 2 ^ 52 \<le> m \<and> m \<le> 2 ^ 53
           \<and> roundPositive x = of_int m * 2 powi (binaryExponent x - 52)"
proof -
  define e where "e = binaryExponent x"
  define u :: rat where "u = 2 powi (e - 52)"
  define m where "m = roundHalfEven (x / u)"
  have u: "0 < u" by (simp add: u_def)
  have b: "2 powi e \<le> x" "x < 2 powi (e + 1)"
    using binaryExponent_bounds[OF assms] by (simp_all add: e_def)
  have "2 ^ 52 * u \<le> x" using b(1) by (simp only: u_def ulp_times)
  then have "2 ^ 52 \<le> x / u" using u by (simp add: le_divide_eq)
  then have "roundHalfEven (2 ^ 52) \<le> m" unfolding m_def by (rule roundHalfEven_mono)
  then have lo: "2 ^ 52 \<le> m" by simp
  have "x \<le> 2 ^ 53 * u" using b(2) by (simp only: u_def ulp_times')
  then have "x / u \<le> 2 ^ 53" using u by (simp add: divide_le_eq)
  then have "m \<le> roundHalfEven (2 ^ 53)" unfolding m_def by (rule roundHalfEven_mono)
  then have hi: "m \<le> 2 ^ 53" by simp
  have "roundPositive x = of_int m * 2 powi (binaryExponent x - 52)"
    by (simp add: roundPositive_def u_def e_def m_def)
  then show ?thesis using lo hi by blast
qed

lemma toDouble_roundPositive:
  assumes "0 < x"
  shows "toDouble (roundPositive x) = roundPositive x"
proof -
  obtain m where m: "2 ^ 52 \<le> m" "m \<le> 2 ^ 53"
      "roundPositive x = of_int m * 2 powi (binaryExponent x - 52)"
    using roundPositive_form[OF assms] by blast
  show ?thesis
  proof (cases "m = 2 ^ 53")
    case True
    have "roundPositive x = 2 ^ 53 * 2 powi (binaryExponent x - 52)"
      unfolding m(3) True by simp
    also have "\<dots> = 2 ^ 52 * 2 powi (binaryExponent x + 1 - 52)"
      by (simp only: ulp_times ulp_times')
    finally have r: "roundPositive x = of_int (2 ^ 52) * 2 powi (binaryExponent x + 1 - 52)"
      by simp
    show ?thesis
      unfolding r by (rule toDouble_exact) simp_all
  next
    case False
    then have "0 < m" "m < 2 ^ 53" using m(1,2) by simp_all
    then show ?thesis unfolding m(3) by (rule toDouble_exact)
  qed
qed

lemma toDouble_idem [simp]: "toDouble (toDouble x) = toDouble x"
proof -
  consider "x = 0" | "0 < x" | "x < 0" by linarith
  then show ?thesis
  proof cases
    case 1
    then show ?thesis by simp
  next
    case 2
    then show ?thesis using toDouble_roundPositive[of x] by (simp add: toDouble_def)
  next
    case 3
    then have "toDouble (roundPositive (- x)) = roundPositive (- x)"
      by (intro toDouble_roundPositive) simp
    then have "toDouble (- roundPositive (- x)) = - roundPositive (- x)"
      by (simp only: toDouble_minus)
    then show ?thesis using 3 by (simp add: toDouble_def)
  qed
qed

lemma toDouble_1 [simp]: "toDouble 1 = 1"
  using toDouble_exact[of 1 0] by simp

lemma fadd_0_left [simp]: "fadd 0 (toDouble x) = toDouble x"
  by (simp add: fadd_def)

lemma toDouble_tie_odd:
  assumes "2 powi e \<le> x" "x < 2 powi (e + 1)"
    and "x = (of_int n + 1 / 2) * 2 powi (e - 52)" "odd n"
  shows "toDouble x = (of_int n + 1) * 2 powi (e - 52)"
  using toDouble_tieI[OF assms(1-3)] assms(4) by simp

lemma toDouble_tie_even:
  assumes "2 powi e \<le> x" "x < 2 powi (e + 1)"
    and "x = (of_int n + 1 / 2) * 2 powi (e - 52)" "even n"
  shows "toDouble x = of_int n * 2 powi (e - 52)"
  using toDouble_tieI[OF assms(1-3)] assms(4) by simp

lemma fadd_0_fmul [simp]: "fadd 0 (fmul a b) = fmul a b"
  by (simp add: fmul_def)

lemma toDouble_le_numeral:
  "x \<le> numeral w \<Longrightarrow> numeral w < (2 :: int) ^ 53 \<Longrightarrow> toDouble x \<le> numeral w"
  using toDouble_mono[of x "numeral w"] by simp

lemma fdiv_unit:
  assumes "0 \<le> a" "a \<le> b" "0 < b"
  shows "0 \<le> fdiv a b \<and> fdiv a b \<le> 1"
proof -
  have "0 \<le> a / b" "a / b \<le> 1" using assms by simp_all
  then show ?thesis
    unfolding fdiv_def using toDouble_nonneg[of "a / b"] toDouble_mono[of "a / b" 1] by simp
qed

lemma fadd_nonneg: "0 \<le> a \<Longrightarrow> 0 \<le> b \<Longrightarrow> 0 \<le> fadd a b"
  by (simp add: fadd_def toDouble_nonneg)

lemma fmul_nonneg: "0 \<le> a \<Longrightarrow> 0 \<le> b \<Longrightarrow> 0 \<le> fmul a b"
  by (simp add: fmul_def toDouble_nonneg)

lemma fadd_le_numeral:
  "a + b \<le> numeral w \<Longrightarrow> numeral w < (2 :: int) ^ 53 \<Longrightarrow> fadd a b \<le> numeral w"
  unfolding fadd_def by (rule toDouble_le_numeral)

lemma fmul_le_numeral:
  "a * b \<le> numeral w \<Longrightarrow> numeral w < (2 :: int) ^ 53 \<Longrightarrow> fmul a b \<le> numeral w"
  unfolding fmul_def by (rule toDouble_le_numeral)

lemma fmul_unit_numeral:
  assumes "0 \<le> a" "a \<le> 1" "numeral w < (2 :: int) ^ 53"
  shows "0 \<le> fmul a (numeral w) \<and> fmul a (numeral w) \<le> numeral w"
proof -
  have "0 \<le> a * numeral w" using assms(1) by simp
  moreover have "a * numeral w \<le> numeral w" using assms(2) by (simp add: mult_left_le_one_le)
  ultimately show ?thesis
    unfolding fmul_def using toDouble_nonneg toDouble_le_numeral[OF _ assms(3)] by blast
qed

lemma double_035: "toDouble (35 / 100) = 3152519739159347 / 9007199254740992"
proof -
  have "toDouble (7 / 20) = of_int 6305039478318694 * 2 powi (-2 - 52)"
    by (rule toDouble_eqI) simp_all
  then show ?thesis by (simp)
qed

lemma double_025: "toDouble (25 / 100) = 1 / 4"
proof -
  have "toDouble (1 / 4) = of_int 4503599627370496 * 2 powi (-2 - 52)"
    by (rule toDouble_eqI) simp_all
  then show ?thesis by (simp)
qed

lemma double_015: "toDouble (15 / 100) = 5404319552844595 / 36028797018963968"
proof -
  have "toDouble (3 / 20) = of_int 5404319552844595 * 2 powi (-3 - 52)"
    by (rule toDouble_eqI) simp_all
  then show ?thesis by (simp)
qed

lemma fmul_10_035: "fmul 10 (3152519739159347 / 9007199254740992) = 7 / 2"
proof -
  have "toDouble (15762598695796735 / 4503599627370496) = (of_int 7881299347898367 + 1) * 2 powi (1 - 52)"
    by (rule toDouble_tie_odd) simp_all
  then show ?thesis by (simp add: fmul_def)
qed

lemma fmul_50_025: "fmul 50 (1 / 4) = 25 / 2"
proof -
  have "toDouble (25 / 2) = of_int 7036874417766400 * 2 powi (3 - 52)"
    by (rule toDouble_eqI) simp_all
  then show ?thesis by (simp add: fmul_def)
qed

lemma fmul_60_015: "fmul 60 (5404319552844595 / 36028797018963968) = 9"
proof -
  have "toDouble (81064793292668925 / 9007199254740992) = of_int 5066549580791808 * 2 powi (3 - 52)"
    by (rule toDouble_eqI) simp_all
  then show ?thesis by (simp add: fmul_def)
qed

section \<open>Properties of the heuristic scorer\<close>

lemma unconnectedNodes_isolated: "unconnectedNodes p = filter (isolated p) (nodes p)"
  unfolding unconnectedNodes_def isolated_def
  by (rule filter_cong) (auto simp add: list_ex_iff)

lemma nodeScore_spec: "nodeScore n = specNodeScore n"
  unfolding nodeScore_def specNodeScore_def credit_def definedShape_def
  by (simp add: startsWith_iff_prefix list_ex_iff)

lemma completenessScore_spec:
  assumes "nodes proj \<noteq> []"
  shows "completenessScore proj
       = fadd (fmul (fdiv (of_nat (filledContext (systemContext proj))) 6) 20)
              (fmul (fdiv (of_nat (sum_list (map specNodeScore (nodes proj))))
                          (of_nat (length (nodes proj) * 100))) 80)"
proof -
  have "nodeScore = specNodeScore"
    by (rule ext) (rule nodeScore_spec)
  then show ?thesis
    using assms by (simp add: completenessScore_def contextFields_def)
qed

lemma filter_consistency_issues:
  "filter (\<lambda>i. dimension i = Consistency) (mockIssues p) =
     (if edges p \<noteq> [] then map unconnectedIssue (unconnectedNodes p) else [])"
proof -
  have a: "filter (\<lambda>i. dimension i = Consistency) (map intentIssue ns) = []" for ns
    by (induction ns) (simp_all add: intentIssue_def)
  have b: "filter (\<lambda>i. dimension i = Consistency) (map unconnectedIssue ns) = map unconnectedIssue ns" for ns
    by (induction ns) (simp_all add: unconnectedIssue_def)
  show ?thesis
    unfolding mockIssues_def
    by (simp add: a b contextIssue_def noNodesIssue_def triggerIssue_def outputIssue_def)
qed

lemma consistencyScore_eq:
  "consistencyScore p = (if edges p \<noteq> [] then 80 - 10 * int (length (unconnectedNodes p)) else 80)"
  by (simp add: consistencyScore_def)

text \<open>
  Claim C5. When the project has an edge, the consistency score is 80 minus 10 for each
  node that no edge leaves or enters, and the issues of dimension consistency are exactly
  one warning per such node, in node order, carrying the node's id. When the project has
  no edge, the consistency score is 80 and there is no issue of dimension consistency,
  however many nodes there are.
\<close>

theorem consistency_per_spec:
  "(edges p \<noteq> [] \<longrightarrow>
      score (consistency (getMockScore now p))
        = 80 - 10 * int (length (filter (isolated p) (nodes p)))
    \<and> filter (\<lambda>i. dimension i = Consistency) (issues (getMockScore now p))
        = map unconnectedIssue (filter (isolated p) (nodes p)))
 \<and> (edges p = [] \<longrightarrow>
      score (consistency (getMockScore now p)) = 80
    \<and> filter (\<lambda>i. dimension i = Consistency) (issues (getMockScore now p)) = [])
 \<and> severity (unconnectedIssue n) = Warning
 \<and> dimension (unconnectedIssue n) = Consistency
 \<and> nodeId (unconnectedIssue n) = Some (node_id n)"
  by (simp add: getMockScore_def consistencyScore_eq filter_consistency_issues
      unconnectedNodes_isolated unconnectedIssue_def)

lemma nodes_threeNodeProject_isolated:
  "filter (isolated threeNodeProject) (nodes threeNodeProject) = [newNode (lit ''c'') Output (2, 0)]"
  by (simp add: isolated_def threeNodeProject_def newNode_def plainEdge_def)

text \<open>
  The theorem at two projects: three nodes with one edge, the third node unconnected
  (score 70, one issue); two nodes and no edge (score 80, no issue).
\<close>

theorem consistency_per_spec_witness:
  "edges threeNodeProject \<noteq> []
 \<and> score (consistency (getMockScore 0 threeNodeProject)) = 70
 \<and> filter (\<lambda>i. dimension i = Consistency) (issues (getMockScore 0 threeNodeProject))
      = [unconnectedIssue (newNode (lit ''c'') Output (2, 0))]
 \<and> edges twoDraftsProject = []
 \<and> length (nodes twoDraftsProject) = 2
 \<and> score (consistency (getMockScore 0 twoDraftsProject)) = 80
 \<and> filter (\<lambda>i. dimension i = Consistency) (issues (getMockScore 0 twoDraftsProject)) = []"
proof -
  have e3: "edges threeNodeProject \<noteq> []" by (simp add: threeNodeProject_def)
  have e2: "edges twoDraftsProject = []" "length (nodes twoDraftsProject) = 2"
    by (simp_all add: twoDraftsProject_def createEmptyProject_def)
  show ?thesis
    using consistency_per_spec[of threeNodeProject 0] consistency_per_spec[of twoDraftsProject 0]
      e3 e2 nodes_threeNodeProject_isolated
    by simp
qed

text \<open>
  Claim C4. The score of a node is the sum of the six credits of the specification. A node
  whose only input port has the shape \<open>unknown\<close> scores what it would score without
  inputs, and giving that port any shape that is neither empty nor \<open>unknown\<close> raises the
  score by exactly 15.
\<close>

theorem nodeScore_per_spec:
  "nodeScore node = specNodeScore node
 \<and> (inputs (data node) = [p] \<and> shape p = lit ''unknown'' \<longrightarrow>
      nodeScore node = nodeScore (node\<lparr>data := (data node)\<lparr>inputs := []\<rparr>\<rparr>)
    \<and> (\<forall>s. s \<noteq> [] \<and> s \<noteq> lit ''unknown'' \<longrightarrow>
          nodeScore (node\<lparr>data := (data node)\<lparr>inputs := [p\<lparr>shape := s\<rparr>]\<rparr>\<rparr>)
            = nodeScore node + 15))"
proof -
  have "nodeScore node = specNodeScore node" by (rule nodeScore_spec)
  moreover have "nodeScore node = nodeScore (node\<lparr>data := (data node)\<lparr>inputs := []\<rparr>\<rparr>)"
    if "inputs (data node) = [p]" "shape p = lit ''unknown''"
    using that by (simp add: nodeScore_def definedShape_def)
  moreover have "nodeScore (node\<lparr>data := (data node)\<lparr>inputs := [p\<lparr>shape := s\<rparr>]\<rparr>\<rparr>)
            = nodeScore node + 15"
    if "inputs (data node) = [p]" "shape p = lit ''unknown''" "s \<noteq> []" "s \<noteq> lit ''unknown''" for s
    using that by (simp add: nodeScore_def definedShape_def)
  ultimately show ?thesis by blast
qed

lemma nodeScore_newProcess: "nodeScore (newNode i Process pos) = 60"
  by (simp add: nodeScore_def newNode_def defaultNodeData_def definedShape_def startsWith_def
      lit_def newline_def)

text \<open>
  The theorem at a new Process node, whose only input has the shape \<open>unknown\<close>: it scores
  60, and 75 once the shape is \<open>string\<close>.
\<close>

theorem nodeScore_per_spec_witness:
  "inputs (data (newNode (lit ''n1'') Process (0, 0)))
     = [\<lparr>port_name = lit ''input'', port_description = lit ''Input data to process'',
         shape = lit ''unknown''\<rparr>]
 \<and> lit ''string'' \<noteq> [] \<and> lit ''string'' \<noteq> lit ''unknown''
 \<and> specNodeScore (newNode (lit ''n1'') Process (0, 0)) = 60
 \<and> nodeScore ((newNode (lit ''n1'') Process (0, 0))\<lparr>data := (data (newNode (lit ''n1'') Process (0, 0)))\<lparr>inputs := []\<rparr>\<rparr>) = 60
 \<and> nodeScore ((newNode (lit ''n1'') Process (0, 0))
       \<lparr>data := (data (newNode (lit ''n1'') Process (0, 0)))
          \<lparr>inputs := [\<lparr>port_name = lit ''input'', port_description = lit ''Input data to process'',
                        shape = lit ''string''\<rparr>]\<rparr>\<rparr>) = 75"
proof -
  let ?n = "newNode (lit ''n1'') Process (0, 0)"
  let ?p = "\<lparr>port_name = lit ''input'', port_description = lit ''Input data to process'',
         shape = lit ''unknown''\<rparr>"
  have i: "inputs (data ?n) = [?p]" by (simp add: newNode_def defaultNodeData_def)
  have s: "shape ?p = lit ''unknown''" by simp
  have l: "lit ''string'' \<noteq> []" "lit ''string'' \<noteq> lit ''unknown''" by simp_all
  have u: "?p\<lparr>shape := lit ''string''\<rparr> = \<lparr>port_name = lit ''input'', port_description = lit ''Input data to process'',
         shape = lit ''string''\<rparr>" by simp
  show ?thesis
    using nodeScore_per_spec[of ?n ?p] i s l u nodeScore_newProcess[of "lit ''n1''" "(0, 0)"]
    by (simp del: lit_eq_iff lit_Nil_iff)
qed

lemma unconnected_crowdedProject: "length (unconnectedNodes crowdedProject) = 9"
  by (simp add: unconnectedNodes_def crowdedProject_def newNode_def plainEdge_def)

text \<open>
  Claim C1. The consistency score has no lower bound: in a project of eleven nodes where
  one edge joins the first two, nine nodes are unconnected and the score is 80 - 90.
\<close>

theorem consistency_below_zero:
  "score (consistency (getMockScore now crowdedProject)) = - 10"
  by (simp add: getMockScore_def consistencyScore_def unconnected_crowdedProject)
    (simp add: crowdedProject_def)

lemma filledContext_le: "filledContext sc \<le> 6"
proof -
  have "filledContext sc \<le> length (contextFields sc)"
    unfolding filledContext_def by (rule length_filter_le)
  then show ?thesis by (simp add: contextFields_def)
qed

lemma nodeScore_le: "nodeScore n \<le> 100"
  by (simp add: nodeScore_def)

lemma sum_nodeScore_le: "sum_list (map nodeScore ns) \<le> length ns * 100"
  by (induction ns) (simp_all add: add_mono nodeScore_le)

lemma completenessScore_range: "0 \<le> completenessScore p \<and> completenessScore p \<le> 100"
proof (cases "nodes p = []")
  case True then show ?thesis by (simp add: completenessScore_def)
next
  case False
  let ?f = "fdiv (of_nat (filledContext (systemContext p))) 6"
  let ?g = "fdiv (of_nat (sum_list (map nodeScore (nodes p)))) (of_nat (length (nodes p) * 100))"
  have n: "0 < length (nodes p)" using False by simp
  have f: "0 \<le> ?f \<and> ?f \<le> 1"
    using filledContext_le[of "systemContext p"] by (intro fdiv_unit) simp_all
  have "(of_nat (sum_list (map nodeScore (nodes p))) :: rat) \<le> of_nat (length (nodes p) * 100)"
    using sum_nodeScore_le[of "nodes p"] by (simp only: of_nat_le_iff)
  then have g: "0 \<le> ?g \<and> ?g \<le> 1" using n by (intro fdiv_unit) simp_all
  have a: "0 \<le> fmul ?f 20 \<and> fmul ?f 20 \<le> 20" using f by (intro fmul_unit_numeral) simp_all
  have b: "0 \<le> fmul ?g 80 \<and> fmul ?g 80 \<le> 80" using g by (intro fmul_unit_numeral) simp_all
  have eq: "completenessScore p = fadd (fmul ?f 20) (fmul ?g 80)"
    using False by (simp add: completenessScore_def contextFields_def)
  have "0 \<le> fadd (fmul ?f 20) (fmul ?g 80)" using a b by (intro fadd_nonneg) simp_all
  moreover have "fadd (fmul ?f 20) (fmul ?g 80) \<le> 100"
    using a b by (intro fadd_le_numeral) simp_all
  ultimately show ?thesis unfolding eq by simp
qed

lemma Math_round_bounds:
  "of_int a \<le> x \<Longrightarrow> x \<le> of_int b \<Longrightarrow> a \<le> Math_round x \<and> Math_round x \<le> b"
  unfolding Math_round_def by (simp add: le_floor_iff floor_le_iff)

lemma Math_round_ge: "of_int a \<le> x \<Longrightarrow> a \<le> Math_round x"
  unfolding Math_round_def by (simp add: le_floor_iff)

lemma Math_round_eqI:
  "of_int n - 1 / 2 \<le> x \<Longrightarrow> x < of_int n + 1 / 2 \<Longrightarrow> Math_round x = n"
  unfolding Math_round_def floor_eq_iff by linarith

lemma Math_round_numeral [simp]: "Math_round (numeral w) = numeral w"
  using Math_round_eqI[of "numeral w" "numeral w"] by simp

lemma Math_round_10: "Math_round 10 = 10"
  by simp

text \<open>
  The weighted sum: the products with the literals and the three additions are rounded
  one by one.
\<close>

lemma weighted_ambiguity: "fmul 50 (toDouble (25 / 100)) = 25 / 2"
  unfolding double_025 by (rule fmul_50_025)

lemma weighted_groundedness: "fmul 60 (toDouble (15 / 100)) = 9"
  unfolding double_015 by (rule fmul_60_015)

lemma overallScore_le:
  assumes "0 \<le> c" "c \<le> 100" "k \<le> 80"
  shows "overallScore c k \<le> 100"
proof -
  have d: "0 \<le> toDouble (35 / 100)" "toDouble (35 / 100) \<le> 36 / 100"
    unfolding double_035 by simp_all
  have "c * toDouble (35 / 100) \<le> 100 * (36 / 100)"
    using assms d by (intro mult_mono) simp_all
  then have A: "fmul c (toDouble (35 / 100)) \<le> 36"
    by (intro fmul_le_numeral) simp_all
  have AB: "fadd (fmul c (toDouble (35 / 100))) (fmul 50 (toDouble (25 / 100))) \<le> 49"
    unfolding weighted_ambiguity using A by (intro fadd_le_numeral) simp_all
  have "(of_int k :: rat) \<le> of_int 80" using assms(3) by (simp only: of_int_le_iff)
  then have C: "fmul (of_int k) (toDouble (25 / 100)) \<le> 20"
    unfolding double_025 by (intro fmul_le_numeral) simp_all
  have ABC: "fadd (fadd (fmul c (toDouble (35 / 100))) (fmul 50 (toDouble (25 / 100))))
                  (fmul (of_int k) (toDouble (25 / 100))) \<le> 69"
    using AB C by (intro fadd_le_numeral) simp_all
  have "fadd (fadd (fadd (fmul c (toDouble (35 / 100))) (fmul 50 (toDouble (25 / 100))))
                   (fmul (of_int k) (toDouble (25 / 100)))) (fmul 60 (toDouble (15 / 100))) \<le> 78"
    unfolding weighted_groundedness using ABC by (intro fadd_le_numeral) simp_all
  then show ?thesis
    unfolding overallScore_def Math_round_def by (simp add: floor_le_iff)
qed

lemma overallScore_nonneg:
  assumes "0 \<le> c" "0 \<le> k"
  shows "0 \<le> overallScore c k"
proof -
  have d: "0 \<le> toDouble (35 / 100)" "0 \<le> toDouble (25 / 100)" "0 \<le> toDouble (15 / 100)"
    by (simp_all add: toDouble_nonneg)
  have k: "(0 :: rat) \<le> of_int k" using assms(2) by simp
  have "of_int 0 \<le>
        fadd (fadd (fadd (fmul c (toDouble (35 / 100))) (fmul 50 (toDouble (25 / 100))))
                   (fmul (of_int k) (toDouble (25 / 100)))) (fmul 60 (toDouble (15 / 100)))"
    using assms(1) k d by (simp add: fadd_nonneg fmul_nonneg)
  then show ?thesis unfolding overallScore_def by (rule Math_round_ge)
qed

lemma overallScore_empty: "overallScore 10 80 = 45"
proof -
  have a: "fmul 10 (toDouble (35 / 100)) = 7 / 2" unfolding double_035 by (rule fmul_10_035)
  have c: "fmul (of_int 80) (toDouble (25 / 100)) = 20"
    unfolding double_025 by (simp add: fmul_def)
  have e: "fadd (7 / 2) (25 / 2) = 16" by (simp add: fadd_def)
  have f: "fadd 16 20 = 36" by (simp add: fadd_def)
  have g: "fadd 36 9 = 45" by (simp add: fadd_def)
  show ?thesis
    unfolding overallScore_def a weighted_ambiguity c weighted_groundedness e f g by simp
qed

lemma mock_scores_range:
  "0 \<le> score (completeness (getMockScore now p)) \<and> score (completeness (getMockScore now p)) \<le> 100
 \<and> score (ambiguity (getMockScore now p)) = 50
 \<and> score (groundedness (getMockScore now p)) = 60
 \<and> score (consistency (getMockScore now p)) \<le> 80
 \<and> overall (getMockScore now p) \<le> 100"
proof -
  have c: "0 \<le> completenessScore p \<and> completenessScore p \<le> 100" by (rule completenessScore_range)
  have k: "consistencyScore p \<le> 80" by (simp add: consistencyScore_def)
  have "overallScore (completenessScore p) (consistencyScore p) \<le> 100"
    using c k by (intro overallScore_le) simp_all
  moreover have "0 \<le> Math_round (completenessScore p) \<and> Math_round (completenessScore p) \<le> 100"
    using c Math_round_bounds[of 0 "completenessScore p" 100] by simp
  ultimately show ?thesis using k by (simp add: getMockScore_def)
qed

lemma mock_scores_nonnegative:
  assumes "length (unconnectedNodes p) \<le> 8"
  shows "0 \<le> score (consistency (getMockScore now p)) \<and> 0 \<le> overall (getMockScore now p)"
proof -
  have c: "0 \<le> completenessScore p" using completenessScore_range[of p] by simp
  have k: "0 \<le> consistencyScore p" using assms by (simp add: consistencyScore_def)
  have "0 \<le> overallScore (completenessScore p) (consistencyScore p)"
    using c k by (rule overallScore_nonneg)
  then show ?thesis using k by (simp add: getMockScore_def)
qed

text \<open>
  Claim C6. With no nodes the completeness score is 10 whatever the system context holds,
  the issues are the system-context warning (when fewer than three fields are filled)
  followed by the no-nodes error, which is the only error, and no issue comes from the
  per-node step.
\<close>

theorem no_nodes_floor:
  "nodes p = [] \<Longrightarrow>
     score (completeness (getMockScore now p)) = 10
   \<and> issues (getMockScore now p)
       = (if filledContext (systemContext p) < 3 then [contextIssue] else []) @ [noNodesIssue]
   \<and> filter (\<lambda>i. severity i = Error) (issues (getMockScore now p)) = [noNodesIssue]
   \<and> filter (\<lambda>i. dimension i = Ambiguity) (issues (getMockScore now p)) = []
   \<and> severity noNodesIssue = Error \<and> dimension noNodesIssue = Completeness
   \<and> message noNodesIssue = lit ''No nodes defined. Add at least one trigger and one output node.''"
  by (simp add: getMockScore_def completenessScore_def mockIssues_def unconnectedNodes_def
      Math_round_10 contextIssue_def noNodesIssue_def)

lemma filledContext_contextOnlyProject: "filledContext (systemContext contextOnlyProject) = 6"
  by (simp add: filledContext_def contextFields_def contextOnlyProject_def)

text \<open>
  The theorem at a project with no nodes and all six fields of the system context filled.
\<close>

theorem no_nodes_floor_witness:
  "nodes contextOnlyProject = []
 \<and> filledContext (systemContext contextOnlyProject) = 6
 \<and> score (completeness (getMockScore 0 contextOnlyProject)) = 10
 \<and> issues (getMockScore 0 contextOnlyProject) = [noNodesIssue]"
proof -
  have n: "nodes contextOnlyProject = []"
    by (simp add: contextOnlyProject_def createEmptyProject_def)
  show ?thesis
    using no_nodes_floor[OF n, of 0] n filledContext_contextOnlyProject by simp
qed

text \<open>
  Claim C2. For a project with no nodes, no edges and six empty system-context fields the
  scores are 10, 50, 80 and 60, the overall score is 45, and the issues are the
  system-context warning and the no-nodes error: one error, and no issue about an
  unconnected node.
\<close>

theorem empty_graph_score:
  "nodes p = [] \<Longrightarrow> edges p = [] \<Longrightarrow>
   environment (systemContext p) = [] \<Longrightarrow> sc_constraints (systemContext p) = [] \<Longrightarrow>
   infrastructure (systemContext p) = [] \<Longrightarrow> dependencies (systemContext p) = [] \<Longrightarrow>
   security (systemContext p) = [] \<Longrightarrow> nonFunctional (systemContext p) = [] \<Longrightarrow>
     score (completeness (getMockScore now p)) = 10
   \<and> score (ambiguity (getMockScore now p)) = 50
   \<and> score (consistency (getMockScore now p)) = 80
   \<and> score (groundedness (getMockScore now p)) = 60
   \<and> overall (getMockScore now p) = 45
   \<and> issues (getMockScore now p) = [contextIssue, noNodesIssue]
   \<and> severity contextIssue = Warning \<and> dimension contextIssue = Completeness
   \<and> severity noNodesIssue = Error \<and> dimension noNodesIssue = Completeness"
proof -
  assume a: "nodes p = []" "edges p = []"
    "environment (systemContext p) = []" "sc_constraints (systemContext p) = []"
    "infrastructure (systemContext p) = []" "dependencies (systemContext p) = []"
    "security (systemContext p) = []" "nonFunctional (systemContext p) = []"
  have f: "filledContext (systemContext p) = 0"
    using a by (simp add: filledContext_def contextFields_def)
  have c: "completenessScore p = 10" using a by (simp add: completenessScore_def)
  have k: "consistencyScore p = 80" using a by (simp add: consistencyScore_def)
  have r: "overallScore 10 80 = 45" by (rule overallScore_empty)
  have r10: "Math_round 10 = 10" by (rule Math_round_10)
  have i: "mockIssues p = [contextIssue, noNodesIssue]"
    using a f by (simp add: mockIssues_def)
  show ?thesis
    using r r10 by (simp add: getMockScore_def c k i contextIssue_def noNodesIssue_def)
qed

text \<open>
  The theorem at the project \<open>createEmptyProject\<close> builds: the whole score.
\<close>

theorem empty_graph_score_witness:
  "getMockScore 7 (createEmptyProject (lit ''p0'') 7) =
     \<lparr>overall = 45,
      completeness = \<lparr>score = 10, details = []\<rparr>,
      ambiguity = \<lparr>score = 50, details = []\<rparr>,
      consistency = \<lparr>score = 80, details = []\<rparr>,
      groundedness = \<lparr>score = 60, details = []\<rparr>,
      issues = [contextIssue, noNodesIssue],
      suggestions = mockSuggestions,
      lastUpdated = 7\<rparr>"
proof -
  let ?p = "createEmptyProject (lit ''p0'') 7"
  have "score (completeness (getMockScore 7 ?p)) = 10
   \<and> score (ambiguity (getMockScore 7 ?p)) = 50
   \<and> score (consistency (getMockScore 7 ?p)) = 80
   \<and> score (groundedness (getMockScore 7 ?p)) = 60
   \<and> overall (getMockScore 7 ?p) = 45
   \<and> issues (getMockScore 7 ?p) = [contextIssue, noNodesIssue]"
    using empty_graph_score[of ?p 7]
    by (simp add: createEmptyProject_def defaultSystemContext_def)
  moreover have "details (completeness (getMockScore 7 ?p)) = []"
    "details (ambiguity (getMockScore 7 ?p)) = []"
    "details (consistency (getMockScore 7 ?p)) = []"
    "details (groundedness (getMockScore 7 ?p)) = []"
    "suggestions (getMockScore 7 ?p) = mockSuggestions"
    "lastUpdated (getMockScore 7 ?p) = 7"
    by (simp_all add: getMockScore_def)
  ultimately show ?thesis
    by (intro SpecScore.equality DimensionScore.equality) simp_all
qed

lemma rounding_ratio: "fdiv 1350 1400 = 8685513567071671 / 9007199254740992"
proof -
  have "toDouble (27 / 28) = of_int 8685513567071671 * 2 powi (-1 - 52)"
    by (rule toDouble_eqI) simp_all
  then show ?thesis by (simp add: fdiv_def)
qed

lemma rounding_nodes: "fmul (8685513567071671 / 9007199254740992) 80 = 2714222989709897 / 35184372088832"
proof -
  have "toDouble (43427567835358355 / 562949953421312) = of_int 5428445979419794 * 2 powi (6 - 52)"
    by (rule toDouble_eqI) simp_all
  then show ?thesis by (simp add: fmul_def)
qed

lemma rounding_completeness: "fadd 20 (2714222989709897 / 35184372088832) = 3417910431486537 / 35184372088832"
proof -
  have "toDouble (3417910431486537 / 35184372088832) = of_int 6835820862973074 * 2 powi (6 - 52)"
    by (rule toDouble_eqI) simp_all
  then show ?thesis by (simp add: fadd_def)
qed

lemma rounding_weighted: "fmul (3417910431486537 / 35184372088832) (3152519739159347 / 9007199254740992) = 4785074604081151 / 140737488355328"
proof -
  have "toDouble (10775030101939948778779928211339 / 316912650057057350374175801344) = of_int 4785074604081151 * 2 powi (5 - 52)"
    by (rule toDouble_eqI) simp_all
  then show ?thesis by (simp add: fmul_def)
qed

lemma rounding_sum2: "fadd (4785074604081151 / 140737488355328) (25 / 2) = 6544293208522751 / 140737488355328"
proof -
  have "toDouble (6544293208522751 / 140737488355328) = of_int 6544293208522751 * 2 powi (5 - 52)"
    by (rule toDouble_eqI) simp_all
  then show ?thesis by (simp add: fadd_def)
qed

lemma rounding_sum3: "fadd (6544293208522751 / 140737488355328) 5 = 7247980650299391 / 140737488355328"
proof -
  have "toDouble (7247980650299391 / 140737488355328) = of_int 7247980650299391 * 2 powi (5 - 52)"
    by (rule toDouble_eqI) simp_all
  then show ?thesis by (simp add: fadd_def)
qed

lemma rounding_sum4: "fadd (7247980650299391 / 140737488355328) 9 = 8514618045497343 / 140737488355328"
proof -
  have "toDouble (8514618045497343 / 140737488355328) = of_int 8514618045497343 * 2 powi (5 - 52)"
    by (rule toDouble_eqI) simp_all
  then show ?thesis by (simp add: fadd_def)
qed

lemma nodeScore_finishedNode: "nodeScore (finishedNode i) = 100"
  by (simp add: nodeScore_def finishedNode_def shapedPort_def defaultNodeData_def
      definedShape_def startsWith_def lit_def newline_def)

lemma nodeScore_bareNode: "nodeScore (bareNode i) = 50"
  by (simp add: nodeScore_def bareNode_def defaultNodeData_def definedShape_def startsWith_def
      lit_def newline_def)

lemma roundingProject_counts:
  "filledContext (systemContext roundingProject) = 6"
  "length (nodes roundingProject) = 14"
  "sum_list (map nodeScore (nodes roundingProject)) = 1350"
  by (simp_all add: roundingProject_def filledContext_contextOnlyProject nodeScore_finishedNode
      nodeScore_bareNode comp_def)

lemma unconnected_roundingProject: "length (unconnectedNodes roundingProject) = 6"
  by (simp add: unconnectedNodes_def roundingProject_def finishedNode_def bareNode_def
      plainEdge_def)

lemma completenessScore_roundingProject:
  "completenessScore roundingProject = 3417910431486537 / 35184372088832"
proof -
  have n: "length (nodes roundingProject) \<noteq> 0" by (simp add: roundingProject_counts)
  have "completenessScore roundingProject = fadd (fmul (fdiv 6 6) 20) (fmul (fdiv 1350 1400) 80)"
    unfolding completenessScore_def using n
    by (simp add: roundingProject_counts contextFields_def)
  also have "fmul (fdiv 6 6) 20 = 20" by (simp add: fdiv_def fmul_def)
  finally show ?thesis
    by (simp only: rounding_ratio rounding_nodes rounding_completeness)
qed

text \<open>
  The rounding of the single operations is visible in the result: on \<open>roundingProject\<close> the
  weighted sum computed in doubles lies just below \<open>60.5\<close>, and the overall score is 60,
  where the sum of the exact products, \<open>121 / 2\<close>, would be rounded to 61.
\<close>

lemma getMockScore_roundingProject:
  "overall (getMockScore now roundingProject) = 60
 \<and> score (completeness (getMockScore now roundingProject)) = 97
 \<and> score (consistency (getMockScore now roundingProject)) = 20
 \<and> Math_round ((6 / 6 * 20 + 1350 / 1400 * 80) * (35 / 100) + 50 * (25 / 100)
               + 20 * (25 / 100) + 60 * (15 / 100)) = 61"
proof -
  have k: "consistencyScore roundingProject = 20"
    by (simp add: consistencyScore_def unconnected_roundingProject)
      (simp add: roundingProject_def)
  have w: "fmul (of_int 20) (toDouble (25 / 100)) = 5"
    unfolding double_025 by (simp add: fmul_def)
  have o: "overallScore (3417910431486537 / 35184372088832) 20 = 60"
    unfolding overallScore_def double_035 w weighted_ambiguity weighted_groundedness
      rounding_weighted rounding_sum2 rounding_sum3 rounding_sum4
    by (rule Math_round_eqI) simp_all
  have c: "Math_round (3417910431486537 / 35184372088832) = 97"
    by (rule Math_round_eqI) simp_all
  have x: "Math_round ((6 / 6 * 20 + 1350 / 1400 * 80) * (35 / 100) + 50 * (25 / 100)
               + 20 * (25 / 100) + 60 * (15 / 100)) = 61"
    by (rule Math_round_eqI) simp_all
  show ?thesis
    using o c x by (simp add: getMockScore_def completenessScore_roundingProject k)
qed

lemma sparse_context_ratio: "fdiv 2 6 = 6004799503160661 / 18014398509481984"
proof -
  have "toDouble (1 / 3) = of_int 6004799503160661 * 2 powi (-2 - 52)"
    by (rule toDouble_eqI) simp_all
  then show ?thesis by (simp add: fdiv_def)
qed

lemma sparse_context: "fmul (6004799503160661 / 18014398509481984) 20 = 3752999689475413 / 562949953421312"
proof -
  have "toDouble (30023997515803305 / 4503599627370496) = of_int 7505999378950826 * 2 powi (2 - 52)"
    by (rule toDouble_eqI) simp_all
  then show ?thesis by (simp add: fmul_def)
qed

lemma sparse_ratio: "fdiv 25 2400 = 6004799503160661 / 576460752303423488"
proof -
  have "toDouble (1 / 96) = of_int 6004799503160661 * 2 powi (-7 - 52)"
    by (rule toDouble_eqI) simp_all
  then show ?thesis by (simp add: fdiv_def)
qed

lemma sparse_nodes: "fmul (6004799503160661 / 576460752303423488) 80 = 3752999689475413 / 4503599627370496"
proof -
  have "toDouble (30023997515803305 / 36028797018963968) = of_int 7505999378950826 * 2 powi (-1 - 52)"
    by (rule toDouble_eqI) simp_all
  then show ?thesis by (simp add: fmul_def)
qed

lemma sparse_completeness: "fadd (3752999689475413 / 562949953421312) (3752999689475413 / 4503599627370496) = 8444249301319679 / 1125899906842624"
proof -
  have "toDouble (33776997205278717 / 4503599627370496) = of_int 8444249301319679 * 2 powi (2 - 52)"
    by (rule toDouble_eqI) simp_all
  then show ?thesis by (simp add: fadd_def)
qed

lemma sparse_weighted: "fmul (8444249301319679 / 1125899906842624) (3152519739159347 / 9007199254740992) = 5910974510923775 / 2251799813685248"
proof -
  have "toDouble (26620662604792812590061167889613 / 10141204801825835211973625643008) = of_int 5910974510923775 * 2 powi (1 - 52)"
    by (rule toDouble_eqI) simp_all
  then show ?thesis by (simp add: fmul_def)
qed

lemma sparse_sum2: "fadd (5910974510923775 / 2251799813685248) (25 / 2) = 121 / 8"
proof -
  have "toDouble (34058472181989375 / 2251799813685248) = of_int 8514618045497344 * 2 powi (3 - 52)"
    by (rule toDouble_eqI) simp_all
  then show ?thesis by (simp add: fadd_def)
qed

lemma sparse_sum3: "fadd (121 / 8) 20 = 281 / 8"
proof -
  have "toDouble (281 / 8) = of_int 4943404278480896 * 2 powi (5 - 52)"
    by (rule toDouble_eqI) simp_all
  then show ?thesis by (simp add: fadd_def)
qed

lemma sparse_sum4: "fadd (281 / 8) 9 = 353 / 8"
proof -
  have "toDouble (353 / 8) = of_int 6210041673678848 * 2 powi (5 - 52)"
    by (rule toDouble_eqI) simp_all
  then show ?thesis by (simp add: fadd_def)
qed

lemma nodeScore_blankNode: "nodeScore (blankNode i) = 0"
  by (simp add: nodeScore_def blankNode_def)

lemma sparseProject_counts:
  "filledContext (systemContext sparseProject) = 2"
  "length (nodes sparseProject) = 24"
  "sum_list (map nodeScore (nodes sparseProject)) = 25"
  "edges sparseProject = []"
  by (simp_all add: sparseProject_def createEmptyProject_def defaultSystemContext_def
      filledContext_def contextFields_def nodeScore_blankNode comp_def)
    (simp add: nodeScore_def blankNode_def shapedPort_def definedShape_def startsWith_def lit_def)

lemma completenessScore_sparseProject:
  "completenessScore sparseProject = 8444249301319679 / 1125899906842624"
proof -
  have n: "length (nodes sparseProject) \<noteq> 0" by (simp add: sparseProject_counts)
  have "completenessScore sparseProject = fadd (fmul (fdiv 2 6) 20) (fmul (fdiv 25 2400) 80)"
    unfolding completenessScore_def using n
    by (simp add: sparseProject_counts contextFields_def)
  then show ?thesis
    by (simp only: sparse_context_ratio sparse_context sparse_ratio sparse_nodes
        sparse_completeness)
qed

text \<open>
  On \<open>sparseProject\<close> the completeness computed in doubles lies just below \<open>7.5\<close> and is
  rounded to 7, where the exact value \<open>15 / 2\<close> would be rounded to 8.
\<close>

lemma getMockScore_sparseProject:
  "score (completeness (getMockScore now sparseProject)) = 7
 \<and> score (consistency (getMockScore now sparseProject)) = 80
 \<and> overall (getMockScore now sparseProject) = 44
 \<and> Math_round (2 / 6 * 20 + 25 / 2400 * 80) = 8"
proof -
  have k: "consistencyScore sparseProject = 80"
    by (simp add: consistencyScore_def sparseProject_counts)
  have w: "fmul (of_int 80) (toDouble (25 / 100)) = 20"
    unfolding double_025 by (simp add: fmul_def)
  have o: "overallScore (8444249301319679 / 1125899906842624) 80 = 44"
    unfolding overallScore_def double_035 w weighted_ambiguity weighted_groundedness
      sparse_weighted sparse_sum2 sparse_sum3 sparse_sum4
    by (rule Math_round_eqI) simp_all
  have c: "Math_round (8444249301319679 / 1125899906842624) = 7"
    by (rule Math_round_eqI) simp_all
  have x: "Math_round (2 / 6 * 20 + 25 / 2400 * 80) = 8"
    by (rule Math_round_eqI) simp_all
  show ?thesis
    using o c x by (simp add: getMockScore_def completenessScore_sparseProject k)
qed

section \<open>Properties of the project store\<close>

text \<open>
  Claim C10. After \<open>deleteNode\<close> the nodes are the former nodes whose id differs from the
  deleted one, the edges are the former edges whose source and target both differ from it,
  each in the former order, so no remaining edge names the deleted node; the system
  context is unchanged.
\<close>

theorem deleteNode_removes:
  "nodes (state_project (deleteNode now nid st))
     = filter (\<lambda>n. node_id n \<noteq> nid) (nodes (state_project st))
 \<and> edges (state_project (deleteNode now nid st))
     = filter (\<lambda>e. source e \<noteq> nid \<and> target e \<noteq> nid) (edges (state_project st))
 \<and> (\<forall>n. n \<in> set (nodes (state_project (deleteNode now nid st)))
        \<longleftrightarrow> n \<in> set (nodes (state_project st)) \<and> node_id n \<noteq> nid)
 \<and> (\<forall>e. e \<in> set (edges (state_project (deleteNode now nid st)))
        \<longleftrightarrow> e \<in> set (edges (state_project st)) \<and> source e \<noteq> nid \<and> target e \<noteq> nid)
 \<and> (\<forall>e \<in> set (edges (state_project (deleteNode now nid st))).
        source e \<noteq> nid \<and> target e \<noteq> nid)
 \<and> subseq (nodes (state_project (deleteNode now nid st))) (nodes (state_project st))
 \<and> subseq (edges (state_project (deleteNode now nid st))) (edges (state_project st))
 \<and> systemContext (state_project (deleteNode now nid st)) = systemContext (state_project st)
 \<and> project_id (state_project (deleteNode now nid st)) = project_id (state_project st)
 \<and> project_name (state_project (deleteNode now nid st)) = project_name (state_project st)
 \<and> specScore (state_project (deleteNode now nid st)) = specScore (state_project st)"
  by (simp add: deleteNode_def)

text \<open>
  The theorem at the three-node project, deleting the source of its only edge: two nodes
  and no edge remain.
\<close>

theorem deleteNode_removes_witness:
  "nodes (state_project (deleteNode 5 (lit ''a'')
           \<lparr>state_project = threeNodeProject, selectedNodeId = Some (lit ''a''),
            isPanelOpen = True, isSystemContextOpen = False, isAnalyzing = False\<rparr>))
     = [newNode (lit ''b'') Process (1, 0), newNode (lit ''c'') Output (2, 0)]
 \<and> edges threeNodeProject = [plainEdge (lit ''e1'') (lit ''a'') (lit ''b'')]
 \<and> edges (state_project (deleteNode 5 (lit ''a'')
           \<lparr>state_project = threeNodeProject, selectedNodeId = Some (lit ''a''),
            isPanelOpen = True, isSystemContextOpen = False, isAnalyzing = False\<rparr>)) = []"
  using deleteNode_removes[of 5 "lit ''a''" "\<lparr>state_project = threeNodeProject, selectedNodeId = Some (lit ''a''),
            isPanelOpen = True, isSystemContextOpen = False, isAnalyzing = False\<rparr>"]
  by (simp add: threeNodeProject_def newNode_def plainEdge_def)

section \<open>Properties of the field inference\<close>

text \<open>
  Claim C7. An issue whose explicit field is \<open>constructor\<close> is mapped neither to one of the
  six field kinds nor to none: the lookup in the object literal finds the member inherited
  from \<open>Object.prototype\<close>, and that is what \<open>inferFieldFromIssue\<close> returns.
\<close>

theorem inferFieldFromIssue_inherited:
  "inferFieldFromIssue u inheritedFieldIssue = Inherited (lit ''constructor'')"
  by (simp add: inferFieldFromIssue_def inheritedFieldIssue_def fieldMapLookup_def fieldMap_def
      objectPrototypeKeys_def List.member_code)

lemma inferFieldFromIssue_own_field:
  "field issue = Some f \<Longrightarrow> map_of fieldMap f = Some k \<Longrightarrow> inferFieldFromIssue u issue = Field k"
  by (auto simp add: inferFieldFromIssue_def fieldMapLookup_def fieldMap_def split: if_splits)

lemma inferFieldFromIssue_behavior:
  "field issue = Some (lit ''behavior'') \<Longrightarrow> inferFieldFromIssue u issue = Field Behavior"
  using inferFieldFromIssue_own_field[of issue "lit ''behavior''" Behavior u]
  by (simp add: fieldMap_def)

lemma inferFieldFromIssue_unknown_field:
  "field issue = Some f \<Longrightarrow> f \<noteq> [] \<Longrightarrow> map_of fieldMap f = None \<Longrightarrow>
   f \<notin> set objectPrototypeKeys \<Longrightarrow> inferFieldFromIssue u issue = Null"
  by (simp add: inferFieldFromIssue_def fieldMapLookup_def List.member_iff)

lemma inferFieldFromIssue_dimension:
  "field issue = None \<or> field issue = Some [] \<Longrightarrow>
   \<not> anyKeyword (toLowerCase u (message issue)) \<Longrightarrow>
   inferFieldFromIssue u issue =
     (case dimension issue of Completeness \<Rightarrow> Field Behavior | Ambiguity \<Rightarrow> Field Intent | _ \<Rightarrow> Null)"
  by (auto simp add: inferFieldFromIssue_def anyKeyword_def Let_def split: Dimension.splits)

lemma behaviorSuggestion_first: "hd mockSuggestions = behaviorSuggestion"
  by (simp add: mockSuggestions_def behaviorSuggestion_def)

lemma targetNode_None_iff: "targetNode s p = None \<longleftrightarrow> nodes p = []"
  by (auto simp add: targetNode_def split: option.splits list.splits)

lemma targetNode_spec: "nodes p \<noteq> [] \<Longrightarrow> targetNode s p = Some (specTarget s p)"
proof -
  assume ne: "nodes p \<noteq> []"
  have eq: "(\<lambda>node. str_includes s (name (data node))) = (\<lambda>n. sublist (name (data n)) s)"
    by (simp add: str_includes_iff_sublist)
  show ?thesis
    using ne unfolding targetNode_def specTarget_def eq
    by (simp split: option.splits list.splits)
qed

lemma suggestionField_behaviorSuggestion:
  "suggestionField (toLowerCase u behaviorSuggestion) = Behavior"
proof -
  have "toLowerCase u behaviorSuggestion
        = lit ''add detailed behavior descriptions with error handling to each node.''"
    by (simp add: toLowerCase_def behaviorSuggestion_def lit_def asciiLower_def)
  moreover have "str_includes (lit ''add detailed behavior descriptions with error handling to each node.'') (lit ''behavior'')"
    by (simp add: lit_def startsWith_def)
  ultimately show ?thesis by (simp add: suggestionField_def)
qed

text \<open>
  Claim C8. \<open>inferFieldFromSuggestion\<close> returns none exactly when the project has no
  nodes. Otherwise the node id it returns is that of the first node, in project order,
  whose name occurs in the suggestion, or of the first node when no name occurs; and for
  the suggestion about detailed behavior descriptions the field is behavior.
\<close>

theorem inferFieldFromSuggestion_target:
  "(inferFieldFromSuggestion u s p = None \<longleftrightarrow> nodes p = [])
 \<and> (nodes p \<noteq> [] \<longrightarrow>
      (\<exists>f. inferFieldFromSuggestion u s p = Some (f, node_id (specTarget s p)))
    \<and> inferFieldFromSuggestion u behaviorSuggestion p
        = Some (Behavior, node_id (specTarget behaviorSuggestion p)))"
proof -
  have a: "inferFieldFromSuggestion u s p = None \<longleftrightarrow> nodes p = []"
    using targetNode_None_iff[of s p]
    by (cases "targetNode s p") (simp_all add: inferFieldFromSuggestion_def)
  have b: "\<exists>f. inferFieldFromSuggestion u s p = Some (f, node_id (specTarget s p))"
    if "nodes p \<noteq> []"
    using targetNode_spec[OF that, of s] by (simp add: inferFieldFromSuggestion_def)
  have c: "inferFieldFromSuggestion u behaviorSuggestion p
        = Some (Behavior, node_id (specTarget behaviorSuggestion p))" if "nodes p \<noteq> []"
    using targetNode_spec[OF that, of behaviorSuggestion]
    by (simp add: inferFieldFromSuggestion_def suggestionField_behaviorSuggestion)
  show ?thesis using a b c by blast
qed

lemma specTarget_code:
  "specTarget s p =
     (case find (\<lambda>n. str_includes s (name (data n))) (nodes p) of
        Some n \<Rightarrow> n
      | None \<Rightarrow> hd (nodes p))"
  by (simp add: specTarget_def str_includes_iff_sublist)

lemma behaviorSuggestion_names:
  "\<not> str_includes behaviorSuggestion (lit ''POST /register'')"
  "\<not> str_includes behaviorSuggestion (lit ''Validate Input'')"
  by (simp_all add: behaviorSuggestion_def lit_def startsWith_def)

lemma namedSuggestion_names:
  "\<not> str_includes namedSuggestion (lit ''POST /register'')"
  "str_includes namedSuggestion (lit ''Validate Input'')"
  by (simp_all add: namedSuggestion_def lit_def startsWith_def)

lemma specTarget_registration:
  "node_id (specTarget behaviorSuggestion registrationProject) = lit ''trigger-1''"
  "node_id (specTarget namedSuggestion registrationProject) = lit ''process-1''"
  by (simp_all add: specTarget_code registrationProject_def behaviorSuggestion_names
      namedSuggestion_names)

text \<open>
  The theorem at the registration project: the behavior suggestion names no node and goes
  to the first node; a suggestion that names the second node goes to it; and with no nodes
  the result is none.
\<close>

theorem inferFieldFromSuggestion_target_witness:
  "nodes registrationProject \<noteq> []
 \<and> inferFieldFromSuggestion (\<lambda>s. s) behaviorSuggestion registrationProject
     = Some (Behavior, lit ''trigger-1'')
 \<and> map_option snd (inferFieldFromSuggestion (\<lambda>s. s) namedSuggestion registrationProject)
     = Some (lit ''process-1'')
 \<and> nodes (createEmptyProject (lit ''p0'') 0) = []
 \<and> inferFieldFromSuggestion (\<lambda>s. s) behaviorSuggestion (createEmptyProject (lit ''p0'') 0) = None"
proof -
  have n: "nodes registrationProject \<noteq> []" by (simp add: registrationProject_def)
  have e: "nodes (createEmptyProject (lit ''p0'') 0) = []" by (simp add: createEmptyProject_def)
  show ?thesis
    using inferFieldFromSuggestion_target[of "\<lambda>s. s" behaviorSuggestion registrationProject]
      inferFieldFromSuggestion_target[of "\<lambda>s. s" namedSuggestion registrationProject]
      inferFieldFromSuggestion_target[of "\<lambda>s. s" behaviorSuggestion "createEmptyProject (lit ''p0'') 0"]
      n e specTarget_registration
    by auto
qed

lemma namedSuggestion_field:
  "inferFieldFromSuggestion (\<lambda>s. s) namedSuggestion registrationProject
     = Some (Constraints, lit ''process-1'')"
proof -
  have l: "toLowerCase (\<lambda>s. s) namedSuggestion
        = lit ''give validate input a constraint on the password length.''"
    by (simp add: toLowerCase_def namedSuggestion_def lit_def asciiLower_def)
  have f: "suggestionField (lit ''give validate input a constraint on the password length.'') = Constraints"
    by (simp add: suggestionField_def lit_def startsWith_def)
  have t: "targetNode namedSuggestion registrationProject = Some (specTarget namedSuggestion registrationProject)"
    by (rule targetNode_spec) (simp add: registrationProject_def)
  show ?thesis
    by (simp add: inferFieldFromSuggestion_def t l f specTarget_registration)
qed

section \<open>Properties of the external analysis adapter\<close>

lemma bindE_Thrown [simp]: "bindE (Thrown e) f = Thrown e"
  by (simp add: bindE_def)

lemma bindE_Returned [simp]: "bindE (Returned x) f = f x"
  by (simp add: bindE_def)

lemma bindE_Pending [simp]: "bindE Pending f = Pending"
  by (simp add: bindE_def)

lemma analyzeSpec_cases:
  "analyzeSpec env p =
     (if hasApiKey env then
        (case analyzeSpec_try env p of
           Returned sc \<Rightarrow> Returned (FromModel sc)
         | Thrown e \<Rightarrow> heuristicResult env p
         | Pending \<Rightarrow> Pending)
      else heuristicResult env p)"
  by (simp add: analyzeSpec_def heuristicResult_def split: completion.splits)

text \<open>
  What the \<open>catch\<close> covers: \<open>analyzeSpec\<close> never throws; without a credential it returns
  the heuristic score, whatever the external model would do; with a credential, whenever
  the body of the \<open>try\<close> throws, it returns the heuristic score of the same project: when
  the call is rejected, when the first content block is not text, when \<open>JSON.parse\<close>
  throws, and when reading the parsed value throws.
\<close>

lemma analyzeSpec_never_throws:
  "(\<forall>e. analyzeSpec env p \<noteq> Thrown e)
 \<and> (\<not> hasApiKey env \<longrightarrow>
      (\<forall>f. analyzeSpec (env\<lparr>messagesCreate := f\<rparr>) p = heuristicResult env p))
 \<and> (\<forall>e. analyzeSpec_try env p = Thrown e \<longrightarrow> analyzeSpec env p = heuristicResult env p)
 \<and> (messagesCreate env 2000 (analysisPromptText env p) = Rejected \<longrightarrow>
      analyzeSpec env p = heuristicResult env p)
 \<and> (\<forall>bs. messagesCreate env 2000 (analysisPromptText env p) = Message (NonTextBlock # bs) \<longrightarrow>
      analyzeSpec env p = heuristicResult env p)
 \<and> (\<forall>t bs. messagesCreate env 2000 (analysisPromptText env p) = Message (TextBlock t # bs)
        \<and> jsonParse env t = None \<longrightarrow>
      analyzeSpec env p = heuristicResult env p)
 \<and> (\<forall>t bs v e. messagesCreate env 2000 (analysisPromptText env p) = Message (TextBlock t # bs)
        \<and> jsonParse env t = Some v \<and> buildModelScore (dateNow env) v = Thrown e \<longrightarrow>
      analyzeSpec env p = heuristicResult env p)"
proof -
  have a: "\<forall>e. analyzeSpec env p \<noteq> Thrown e"
    by (simp add: analyzeSpec_def split: completion.splits)
  have b: "analyzeSpec (env\<lparr>messagesCreate := f\<rparr>) p = heuristicResult env p"
    if "\<not> hasApiKey env" for f
    using that by (simp add: analyzeSpec_def heuristicResult_def hasApiKey_def)
  have c: "analyzeSpec env p = heuristicResult env p" if "analyzeSpec_try env p = Thrown e" for e
    using that by (simp add: analyzeSpec_cases)
  have d: "analyzeSpec env p = heuristicResult env p"
    if "messagesCreate env 2000 (analysisPromptText env p) = Rejected"
    using that by (intro c[of APIError]) (simp add: analyzeSpec_try_def responseText_def)
  have e: "analyzeSpec env p = heuristicResult env p"
    if "messagesCreate env 2000 (analysisPromptText env p) = Message (NonTextBlock # bs)" for bs
    using that
    by (intro c[of "ErrorObj (lit ''Unexpected response type'')"])
      (simp add: analyzeSpec_try_def responseText_def)
  have g: "analyzeSpec env p = heuristicResult env p"
    if "messagesCreate env 2000 (analysisPromptText env p) = Message (TextBlock t # bs)"
      "jsonParse env t = None" for t bs
    using that
    by (intro c[of SyntaxError]) (simp add: analyzeSpec_try_def responseText_def parseJSON_def)
  have h: "analyzeSpec env p = heuristicResult env p"
    if "messagesCreate env 2000 (analysisPromptText env p) = Message (TextBlock t # bs)"
      "jsonParse env t = Some v" "buildModelScore (dateNow env) v = Thrown x" for t bs v x
    using that
    by (intro c[of x]) (simp add: analyzeSpec_try_def responseText_def parseJSON_def)
  show ?thesis using a b c d e g h by blast
qed

lemma bindE_Pending_iff:
  "bindE m f = Pending \<longleftrightarrow> m = Pending \<or> (\<exists>x. m = Returned x \<and> f x = Pending)"
  by (cases m) simp_all

lemma getProp_not_Pending: "getProp v k \<noteq> Pending"
  by (cases v) (simp_all split: option.splits)

lemma readDimension_not_Pending: "readDimension v k \<noteq> Pending"
  by (simp add: readDimension_def bindE_Pending_iff getProp_not_Pending)

lemma readIssue_not_Pending: "readIssue v \<noteq> Pending"
  by (simp add: readIssue_def bindE_Pending_iff getProp_not_Pending)

lemma mapE_readIssue_not_Pending: "mapE readIssue xs \<noteq> Pending"
  by (induction xs) (simp_all add: bindE_Pending_iff readIssue_not_Pending)

lemma readIssues_not_Pending: "readIssues v \<noteq> Pending"
  by (simp add: readIssues_def mapE_readIssue_not_Pending split: jsval.splits)

lemma buildModelScore_not_Pending: "buildModelScore now v \<noteq> Pending"
  by (simp add: buildModelScore_def bindE_Pending_iff getProp_not_Pending
      readDimension_not_Pending readIssues_not_Pending)

lemma parseJSON_not_Pending: "parseJSON env t \<noteq> Pending"
  by (simp add: parseJSON_def split: option.splits)

lemma responseText_Pending_iff: "responseText r = Pending \<longleftrightarrow> r = Unsettled"
  by (simp add: responseText_def split: ApiOutcome.splits list.splits ContentBlock.splits)

lemma analyzeSpec_Pending_iff:
  "analyzeSpec env p = Pending \<longleftrightarrow>
     hasApiKey env \<and> messagesCreate env 2000 (analysisPromptText env p) = Unsettled"
proof -
  have "analyzeSpec_try env p = Pending \<longleftrightarrow>
      messagesCreate env 2000 (analysisPromptText env p) = Unsettled"
    by (simp add: analyzeSpec_try_def bindE_Pending_iff responseText_Pending_iff
        parseJSON_not_Pending buildModelScore_not_Pending)
  then show ?thesis
    by (cases "analyzeSpec_try env p") (auto simp add: analyzeSpec_def)
qed

lemma buildModelScore_JNull: "buildModelScore now JNull = Thrown TypeError"
  by (simp add: buildModelScore_def)

lemma buildModelScore_empty_object: "buildModelScore now (JObj []) = Thrown TypeError"
  by (simp add: buildModelScore_def readDimension_def)

text \<open>
  The same without a credential, and with a credential for a rejected call, a block
  that is not text, a text that is not JSON, and the JSON text \<open>null\<close>.
\<close>

lemma analyzeSpec_fallback_examples:
  "\<not> hasApiKey offlineEnv
 \<and> analyzeSpec (offlineEnv\<lparr>messagesCreate := (\<lambda>m q. Message [TextBlock (lit ''{}'')])\<rparr>) threeNodeProject
     = heuristicResult offlineEnv threeNodeProject
 \<and> analyzeSpec (keyedEnv Rejected []) threeNodeProject
     = heuristicResult (keyedEnv Rejected []) threeNodeProject
 \<and> analyzeSpec (keyedEnv (Message [NonTextBlock]) []) threeNodeProject
     = heuristicResult (keyedEnv (Message [NonTextBlock]) []) threeNodeProject
 \<and> analyzeSpec (keyedEnv (Message [TextBlock (lit ''The score is 80.'')]) []) threeNodeProject
     = heuristicResult (keyedEnv (Message [TextBlock (lit ''The score is 80.'')]) []) threeNodeProject
 \<and> analyzeSpec (keyedEnv (Message [TextBlock (lit ''null'')]) [(lit ''null'', JNull)]) threeNodeProject
     = heuristicResult (keyedEnv (Message [TextBlock (lit ''null'')]) [(lit ''null'', JNull)]) threeNodeProject"
  using analyzeSpec_never_throws[of offlineEnv threeNodeProject]
    analyzeSpec_never_throws[of "keyedEnv Rejected []" threeNodeProject]
    analyzeSpec_never_throws[of "keyedEnv (Message [NonTextBlock]) []" threeNodeProject]
    analyzeSpec_never_throws[of "keyedEnv (Message [TextBlock (lit ''The score is 80.'')]) []" threeNodeProject]
    analyzeSpec_never_throws[of "keyedEnv (Message [TextBlock (lit ''null'')]) [(lit ''null'', JNull)]" threeNodeProject]
    buildModelScore_JNull
  by (simp add: hasApiKey_def keyedEnv_def offlineEnv_def)

lemma analyzeSpec_model_answer:
  "analyzeSpec (keyedEnv (Message [TextBlock (lit ''answer'')]) [(lit ''answer'', goodAnswer)]) p
   = Returned (FromModel
      \<lparr>m_overall = JNum 72,
       m_completeness = \<lparr>m_score = JNum 80, m_details = JArr []\<rparr>,
       m_ambiguity = \<lparr>m_score = JNum 60, m_details = JArr []\<rparr>,
       m_consistency = \<lparr>m_score = JNum 75, m_details = JArr [JStr (lit ''ok'')]\<rparr>,
       m_groundedness = \<lparr>m_score = JNum 70, m_details = JArr []\<rparr>,
       m_issues = [\<lparr>m_severity = JStr (lit ''warning''), m_dimension = JStr (lit ''completeness''),
                    m_nodeId = JUndefined, m_field = JUndefined,
                    m_message = JStr (lit ''Intent is vague'')\<rparr>],
       m_suggestions = JArr [],
       m_lastUpdated = 1700000000000\<rparr>)"
  by (simp add: analyzeSpec_def analyzeSpec_try_def hasApiKey_def keyedEnv_def offlineEnv_def
      responseText_def parseJSON_def buildModelScore_def readDimension_def readIssues_def
      readIssue_def or_else_def goodAnswer_def)

text \<open>
  An answer that lacks a whole dimension object makes the read of its \<open>score\<close> throw, and
  the heuristic score is returned.
\<close>

lemma analyzeSpec_missing_dimensions:
  "analyzeSpec (keyedEnv (Message [TextBlock (lit ''answer'')]) [(lit ''answer'', JObj [])]) p
   = heuristicResult (keyedEnv (Message [TextBlock (lit ''answer'')]) [(lit ''answer'', JObj [])]) p"
  by (simp add: analyzeSpec_def analyzeSpec_try_def hasApiKey_def keyedEnv_def offlineEnv_def
      responseText_def parseJSON_def buildModelScore_empty_object heuristicResult_def)

text \<open>
  Claim C3. The claim fails for an answer that parses but lacks required fields: when the
  model answers with the four dimension objects, each without a score, and without
  \<open>overall\<close>, nothing in the \<open>try\<close> throws, and \<open>analyzeSpec\<close> returns the score built from
  that answer, whose \<open>overall\<close> and four scores are \<open>undefined\<close>, and not the heuristic
  score of the project.
\<close>

theorem analyzeSpec_missing_scores:
  "analyzeSpec (keyedEnv (Message [TextBlock (lit ''answer'')]) [(lit ''answer'', scorelessAnswer)]) p
   = Returned (FromModel
      \<lparr>m_overall = JUndefined,
       m_completeness = \<lparr>m_score = JUndefined, m_details = JArr []\<rparr>,
       m_ambiguity = \<lparr>m_score = JUndefined, m_details = JArr []\<rparr>,
       m_consistency = \<lparr>m_score = JUndefined, m_details = JArr []\<rparr>,
       m_groundedness = \<lparr>m_score = JUndefined, m_details = JArr []\<rparr>,
       m_issues = [],
       m_suggestions = JArr [],
       m_lastUpdated = 1700000000000\<rparr>)
 \<and> analyzeSpec (keyedEnv (Message [TextBlock (lit ''answer'')]) [(lit ''answer'', scorelessAnswer)]) p
   \<noteq> heuristicResult (keyedEnv (Message [TextBlock (lit ''answer'')]) [(lit ''answer'', scorelessAnswer)]) p"
  by (simp add: analyzeSpec_def analyzeSpec_try_def hasApiKey_def keyedEnv_def offlineEnv_def
      responseText_def parseJSON_def buildModelScore_def readDimension_def readIssues_def
      or_else_def scorelessAnswer_def heuristicResult_def)

section \<open>Properties of the field autogeneration\<close>




lemma autogenField_model_answer:
  "autogenField (keyedEnv (Message [TextBlock (lit ''x'')]) [(lit ''x'', JObj [(lit ''value'', JStr (lit ''Validate the body''))])])
     (ghostContext\<lparr>ctx_nodeId := lit ''b''\<rparr>)
   = Returned \<lparr>success = True, result_field = Behavior,
          result_value = ModelValue (JStr (lit ''Validate the body'')), error = None\<rparr>"
  by (simp add: autogenField_def autogenField_try_def buildAutogenPrompt_def hasApiKey_def
      keyedEnv_def offlineEnv_def ghostContext_def threeNodeProject_def newNode_def
      responseText_def parseJSON_def)

end
